theory Spec2Isabelle
  imports Main "HOL-Library.Word" "HOL-Library.Finite_Map"
begin

section \<open>The variables RPC endpoint (nomad/variables\_endpoint.go)\<close>

text \<open>
  A shallow embedding of the write path (\<open>Apply\<close>), the read path (\<open>Read\<close>) and the
  lock renewal (\<open>RenewLock\<close>) of the variables endpoint, with the helpers they call:
  \<open>hasReadPermission\<close>, \<open>hasOperationPermissions\<close>, \<open>canonicalizeAndValidate\<close>,
  \<open>makeVariablesApplyResponse\<close>, \<open>encrypt\<close>, \<open>decrypt\<close> and \<open>isCallerOwner\<close>.

  The endpoint calls into other packages and into the server: the structs package, the ACL
  evaluator, the encrypter, the raft log, the state store and the lock timers. Every such
  call is a field of the record \<open>env\<close>: either a function, or the outcome of the call
  for the request being served. Theorems hold for every \<open>env\<close>.
\<close>

subsection \<open>Errors\<close>

text \<open>
  \<open>type VarOp string\<close>: the six operations the endpoint switches on, and any other
  string.
\<close>

datatype VarOp =
    VarOpSet | VarOpDelete | VarOpDeleteCAS | VarOpCAS
  | VarOpLockAcquire | VarOpLockRelease | VarOpOther string

text \<open>
  Errors as values. \<open>ErrRPCCoded code msg\<close> is \<open>structs.NewErrRPCCoded(code, msg)\<close>;
  the message \<open>ErrorOf e\<close> stands for the string \<open>e.Error()\<close>, whose rendering belongs
  to the structs package. \<open>Errorf\<close> carries the format string of a \<open>fmt.Errorf\<close>
  without a wrapped error, \<open>ErrorfW\<close> the format string and the error wrapped by
  \<open>%w\<close>, \<open>ErrUnexpectedVarOp op\<close> is
  \<open>fmt.Errorf("svPreApply: unexpected VarOp received: %q", op)\<close>.
  \<open>ErrExternal\<close> is an error made by a collaborator, and \<open>Panic\<close> a run-time panic
  (a nil pointer dereference).
\<close>

datatype error =
    ErrPermissionDenied
  | ErrRPCCoded nat msg
  | Errorf string
  | ErrorfW string error
  | ErrUnexpectedVarOp VarOp
  | ErrExternal string
  | Panic string
and msg = Msg string | ErrorOf error

definition StatusBadRequest :: nat where "StatusBadRequest = 400"
definition StatusNotFound :: nat where "StatusNotFound = 404"
definition StatusConflict :: nat where "StatusConflict = 409"

definition errVarAlreadyLocked :: error where
  "errVarAlreadyLocked = ErrRPCCoded StatusBadRequest (Msg ''variable already holds a lock'')"
definition errVarNotFound :: error where
  "errVarNotFound = ErrRPCCoded StatusNotFound (Msg ''variable doesn't exist'')"
definition errLockNotFound :: error where
  "errLockNotFound = ErrRPCCoded StatusConflict (Msg ''variable doesn't hold a lock'')"
definition errVarIsLocked :: error where
  "errVarIsLocked = ErrRPCCoded StatusConflict (Msg ''attempting to modify locked variable'')"
definition errMissingLockInfo :: error where
  "errMissingLockInfo = ErrRPCCoded StatusBadRequest (Msg ''missing lock information'')"
definition errLockOnVarCreation :: error where
  "errLockOnVarCreation =
     ErrRPCCoded StatusBadRequest (Msg ''variable should not contain lock definition'')"
definition errItemsOnRelease :: error where
  "errItemsOnRelease =
     ErrRPCCoded StatusBadRequest (Msg ''lock release operation doesn't take variable items'')"
definition errNoPath :: error where
  "errNoPath = ErrRPCCoded StatusBadRequest (Msg ''delete requires a Path'')"

definition nilDereference :: error where
  "nilDereference = Panic ''invalid memory address or nil pointer dereference''"

subsection \<open>Data model\<close>

text \<open>
  The structs of the request and response types, with the fields the endpoint reads and
  writes. An embedded struct is a field (\<open>dMeta\<close>, \<open>eMeta\<close> for the embedded
  \<open>VariableMetadata\<close>); a pointer that may be nil is an \<open>option\<close>. Indices are
  \<open>uint64\<close>, times and durations \<open>int64\<close>.
\<close>

record VariableLock =
  ID :: string
  TTL :: "64 word"
  LockDelay :: "64 word"

record VariableMetadata =
  Namespace :: string
  Path :: string
  CreateIndex :: "64 word"
  ModifyIndex :: "64 word"
  CreateTime :: "64 word"
  ModifyTime :: "64 word"
  Lock :: "VariableLock option"

text \<open>
  \<open>type VariableItems map[string]string\<close>. A Go map is nil (\<open>None\<close>) or an allocated
  finite map; the two differ under \<open>!= nil\<close> and agree under \<open>len\<close>.
\<close>

type_synonym VariableItems = "(string, string) fmap option"

definition len :: "VariableItems \<Rightarrow> nat" where
  "len items = (case items of None \<Rightarrow> 0 | Some m \<Rightarrow> fcard (fmdom m))"

record VariableDecrypted =
  dMeta :: VariableMetadata
  Items :: VariableItems

record VariableEncrypted =
  eMeta :: VariableMetadata
  Data :: "8 word list"
  KeyID :: string

record WriteRequest =
  wNamespace :: string
  AuthToken :: string

record VariablesApplyRequest =
  Op :: VarOp
  Var :: "VariableDecrypted option"
  WriteRequest :: WriteRequest

record VarApplyStateRequest =
  sOp :: VarOp
  sVar :: "VariableEncrypted option"
  sWriteRequest :: WriteRequest

text \<open>\<open>type VarOpResult string\<close>: the four results of the structs package, or another string.\<close>

datatype VarOpResult =
    VarOpResultOk | VarOpResultConflict | VarOpResultRedacted | VarOpResultError
  | VarOpResultOther string

record WriteMeta =
  Index :: "64 word"

record VarApplyStateResponse =
  eOp :: VarOp
  eResult :: VarOpResult
  eError :: "error option"
  eConflict :: "VariableEncrypted option"
  WrittenSVMeta :: "VariableMetadata option"
  eWriteMeta :: WriteMeta

record VariablesApplyResponse =
  rOp :: VarOp
  Input :: "VariableDecrypted option"
  Result :: VarOpResult
  Error :: "error option"
  Conflict :: "VariableDecrypted option"
  Output :: "VariableDecrypted option"
  rWriteMeta :: WriteMeta


record VariablesReadResponse =
  rdData :: "VariableDecrypted option"
  rdIndex :: "64 word"

record VariablesRenewLockRequest =
  rnPath :: string
  LockID :: string
  rnWriteRequest :: WriteRequest

record VariablesRenewLockResponse =
  VarMeta :: "VariableMetadata option"
  rnIndex :: "64 word"

text \<open>
  Modelled from the spec: the result tests \<open>IsOk\<close> and \<open>IsError\<close> of
  \<open>VarApplyStateResponse\<close> are methods of the structs package (nomad/structs). The state
  machine answers with one of three branches (success, conflict, terminal failure), read
  off the \<open>Result\<close> field.
\<close>

definition IsOk :: "VarApplyStateResponse \<Rightarrow> bool" where
  "IsOk r = (eResult r = VarOpResultOk)"

definition IsError :: "VarApplyStateResponse \<Rightarrow> bool" where
  "IsError r = (eResult r = VarOpResultError)"

text \<open>
  Modelled from the spec: the \<open>Copy\<close> methods of \<open>VariableItems\<close>,
  \<open>VariableDecrypted\<close> and \<open>VariableEncrypted\<close> belong to the structs package
  (nomad/structs). A copy carries the same metadata and the same items; the copy of the
  items is a freshly made map, so the copy of a nil map is an allocated empty one.
\<close>

definition VariableItems_Copy :: "VariableItems \<Rightarrow> VariableItems" where
  "VariableItems_Copy items = (case items of None \<Rightarrow> Some fmempty | Some m \<Rightarrow> Some m)"


definition VariableEncrypted_Copy :: "VariableEncrypted \<Rightarrow> VariableEncrypted" where
  "VariableEncrypted_Copy ve = ve"

text \<open>The zero values \<open>VariableLock{}\<close> and \<open>VariableDecrypted{}\<close>.\<close>

definition zeroVariableLock :: VariableLock where
  "zeroVariableLock = \<lparr>ID = '''', TTL = 0, LockDelay = 0\<rparr>"

definition zeroVariableMetadata :: VariableMetadata where
  "zeroVariableMetadata =
     \<lparr>Namespace = '''', Path = '''', CreateIndex = 0, ModifyIndex = 0,
      CreateTime = 0, ModifyTime = 0, Lock = None\<rparr>"

definition zeroVariableDecrypted :: VariableDecrypted where
  "zeroVariableDecrypted = \<lparr>dMeta = zeroVariableMetadata, Items = None\<rparr>"

subsection \<open>The collaborators\<close>

text \<open>
  Modelled from the spec: the capability names are constants of the acl package (acl). They
  name the write, destroy and read capabilities of the authorizer.
\<close>

definition VariablesCapabilityWrite :: string where "VariablesCapabilityWrite = ''write''"
definition VariablesCapabilityDestroy :: string where "VariablesCapabilityDestroy = ''destroy''"
definition VariablesCapabilityRead :: string where "VariablesCapabilityRead = ''read''"
definition PolicyRead :: string where "PolicyRead = ''read''"

datatype ACLClaim = ACLClaim string

text \<open>
  \<open>*acl.ACL\<close>, by the two methods the endpoint calls:
  \<open>AllowVariableOperation(namespace, path, capability, claim)\<close> and \<open>IsManagement()\<close>.
\<close>

record ACL =
  AllowVariableOperation :: "string \<Rightarrow> string \<Rightarrow> string \<Rightarrow> ACLClaim option \<Rightarrow> bool"
  IsManagement :: bool

text \<open>
  The state store: the variables table by (namespace, path), and the table's index.
\<close>

record StateStore =
  variables :: "string \<times> string \<Rightarrow> VariableEncrypted option"
  TableVariables_index :: "64 word"

text \<open>The calls made on the \<open>variableTimers\<close> interface, in order.\<close>

datatype timer_call =
    CreateVariableLockTTLTimer VariableEncrypted
  | RemoveVariableLockTTLTimer VariableEncrypted
  | RenewTTLTimer VariableEncrypted

text \<open>
  The server's state as the endpoint changes it: the state store (which only the
  replicated state machine writes), the mutation records submitted to the raft log, and
  the calls made on the lock timers.
\<close>

record server =
  State :: StateStore
  raft_log :: "VarApplyStateRequest list"
  timers :: "timer_call list"

text \<open>
  The environment of one request. Outcomes of calls that take the request:
  \<open>forward*\<close> (\<open>Some r\<close> when the request was forwarded and answered \<open>r\<close>),
  \<open>Authenticate\<close>, \<open>ServersMeetMinimumVersion\<close>, \<open>ResolveACL\<close>,
  \<open>RequestNamespace\<close>, \<open>IdentityToACLClaim\<close>, \<open>RenewLockRequest_Validate\<close>,
  \<open>Snapshot\<close> and \<open>GetVariable\<close> (their failures), \<open>now\<close>
  (\<open>time.Now().UnixNano()\<close>). Functions: the structs package's \<open>Canonicalize\<close>,
  \<open>Validate\<close>, \<open>ValidateForLock\<close>, \<open>ValidatePath\<close>; \<open>json.Marshal\<close> and
  \<open>json.Unmarshal\<close> on items; the encrypter; \<open>raftApply\<close> (the replicated state
  machine: its answer and the state store after it); the timers' answer to a renewal.
\<close>

record env =
  forwardApply :: "(error + VariablesApplyResponse) option"
  forwardRead :: "(error + VariablesReadResponse) option"
  forwardRenewLock :: "(error + VariablesRenewLockResponse) option"
  Authenticate :: "error option"
  ServersMeetMinimumVersion :: bool
  ResolveACL :: "error + ACL"
  RequestNamespace :: string
  IdentityToACLClaim :: "ACLClaim option"
  RenewLockRequest_Validate :: "error option"
  Snapshot :: "error option"
  GetVariable :: "error option"
  now :: "64 word"
  Canonicalize :: "VariableDecrypted \<Rightarrow> VariableDecrypted"
  Validate :: "VariableDecrypted \<Rightarrow> error option"
  ValidateForLock :: "VariableDecrypted \<Rightarrow> error option"
  ValidatePath :: "string \<Rightarrow> error option"
  Marshal :: "VariableItems \<Rightarrow> error + 8 word list"
  Unmarshal :: "8 word list \<Rightarrow> error + VariableItems"
  Encrypt :: "8 word list \<Rightarrow> error + 8 word list \<times> string"
  Decrypt :: "8 word list \<Rightarrow> string \<Rightarrow> error + 8 word list"
  raftApply :: "VarApplyStateRequest \<Rightarrow> StateStore \<Rightarrow>
                  (error + VarApplyStateResponse option \<times> 64 word) \<times> StateStore"
  timers_RenewTTLTimer :: "VariableEncrypted \<Rightarrow> error option"

subsection \<open>Permissions\<close>

definition hasReadPermission :: "ACL \<Rightarrow> string \<Rightarrow> string \<Rightarrow> bool" where
  "hasReadPermission aclObj namespace path =
     AllowVariableOperation aclObj namespace path VariablesCapabilityRead None"

definition hasOperationPermissions ::
  "ACL \<Rightarrow> string \<Rightarrow> string \<Rightarrow> VarOp \<Rightarrow> error option" where
  "hasOperationPermissions aclObj namespace path op =
     (let hasPerm = (\<lambda>perm. AllowVariableOperation aclObj namespace path perm None) in
      if op = VarOpSet \<or> op = VarOpCAS \<or> op = VarOpLockAcquire \<or> op = VarOpLockRelease then
        (if \<not> hasPerm VariablesCapabilityWrite then Some ErrPermissionDenied else None)
      else if op = VarOpDelete \<or> op = VarOpDeleteCAS then
        (if \<not> hasPerm VariablesCapabilityDestroy then Some ErrPermissionDenied else None)
      else Some (ErrUnexpectedVarOp op))"

subsection \<open>Canonicalization and validation\<close>

text \<open>
  \<open>canonicalizeAndValidate\<close> returns its error and the request as it leaves it: the
  lock acquire and the set/CAS branches write the canonical variable back into the request.
\<close>

definition canonicalizeAndValidate ::
  "env \<Rightarrow> VariablesApplyRequest \<Rightarrow> error option \<times> VariablesApplyRequest" where
  "canonicalizeAndValidate env args =
     (if Op args = VarOpLockAcquire then
        (case Var args of
           None \<Rightarrow> (Some nilDereference, args)
         | Some v \<Rightarrow>
             let v1 = (if Lock (dMeta v) = None
                       then v\<lparr>dMeta := (dMeta v)\<lparr>Lock := Some zeroVariableLock\<rparr>\<rparr>
                       else v);
                 v2 = Canonicalize env v1;
                 args' = args\<lparr>Var := Some v2\<rparr>
             in (case ValidateForLock env v2 of
                   Some err \<Rightarrow> (Some (ErrRPCCoded StatusBadRequest (ErrorOf err)), args')
                 | None \<Rightarrow> (None, args')))
      else if Op args = VarOpSet \<or> Op args = VarOpCAS then
        (case Var args of
           None \<Rightarrow> (Some nilDereference, args)
         | Some v \<Rightarrow>
             if (case Lock (dMeta v) of
                   None \<Rightarrow> False
                 | Some l \<Rightarrow> LockDelay l \<noteq> 0 \<or> TTL l \<noteq> 0)
             then (Some (ErrRPCCoded StatusBadRequest (ErrorOf errLockOnVarCreation)), args)
             else
               let v2 = Canonicalize env v;
                   args' = args\<lparr>Var := Some v2\<rparr>
               in (case Validate env v2 of
                     Some err \<Rightarrow> (Some (ErrRPCCoded StatusBadRequest (ErrorOf err)), args')
                   | None \<Rightarrow> (None, args')))
      else if Op args = VarOpDelete \<or> Op args = VarOpDeleteCAS then
        (case Var args of
           None \<Rightarrow> (Some errNoPath, args)
         | Some v \<Rightarrow> if Path (dMeta v) = '''' then (Some errNoPath, args) else (None, args))
      else if Op args = VarOpLockRelease then
        (case Var args of
           None \<Rightarrow> (Some errMissingLockInfo, args)
         | Some v \<Rightarrow>
             (case Lock (dMeta v) of
                None \<Rightarrow> (Some errMissingLockInfo, args)
              | Some l \<Rightarrow>
                  if ID l = '''' then (Some errMissingLockInfo, args)
                  else if Items v \<noteq> None \<or> len (Items v) \<noteq> 0
                       then (Some errItemsOnRelease, args)
                  else (ValidatePath env (Path (dMeta v)), args)))
      else (None, args))"

subsection \<open>Encryption\<close>

definition encrypt :: "env \<Rightarrow> VariableDecrypted \<Rightarrow> error + VariableEncrypted" where
  "encrypt env v =
     (case Marshal env (Items v) of
        Inl err \<Rightarrow> Inl err
      | Inr b \<Rightarrow>
          (case Encrypt env b of
             Inl err \<Rightarrow> Inl err
           | Inr (d, k) \<Rightarrow> Inr \<lparr>eMeta = dMeta v, Data = d, KeyID = k\<rparr>))"

definition decrypt :: "env \<Rightarrow> VariableEncrypted \<Rightarrow> error + VariableDecrypted" where
  "decrypt env v =
     (case Decrypt env (Data v) (KeyID v) of
        Inl err \<Rightarrow> Inl err
      | Inr b \<Rightarrow>
          (case Unmarshal env b of
             Inl err \<Rightarrow> Inl err
           | Inr items \<Rightarrow> Inr \<lparr>dMeta = eMeta v, Items = items\<rparr>))"

subsection \<open>The response of Apply\<close>

text \<open>\<open>isCallerOwner\<close> reads through \<open>req.Var\<close>, a pointer: on nil it panics.\<close>

definition isCallerOwner :: "VariablesApplyRequest \<Rightarrow> VariableMetadata \<Rightarrow> error + bool" where
  "isCallerOwner req respVarMeta =
     (case Var req of
        None \<Rightarrow> Inl nilDereference
      | Some v \<Rightarrow>
          let reqLock = Lock (dMeta v); savedLock = Lock respVarMeta in
          Inr (case reqLock of
                 None \<Rightarrow> False
               | Some rl \<Rightarrow> (case savedLock of None \<Rightarrow> False | Some sl \<Rightarrow> ID rl = ID sl)))"

text \<open>
  \<open>makeVariablesApplyResponse\<close> returns the pair (response, error) of the Go function.
  It reads \<open>eResp\<close>, \<open>req.Var\<close> and, on a conflict, \<open>eResp.Conflict\<close> through
  pointers before any test for nil: each nil is a panic.
\<close>

definition makeVariablesApplyResponse ::
  "env \<Rightarrow> VariablesApplyRequest \<Rightarrow> VarApplyStateResponse option \<Rightarrow> ACL \<Rightarrow>
     VariablesApplyResponse option \<times> error option" where
  "makeVariablesApplyResponse env req eRespP aclObj =
     (case eRespP of
        None \<Rightarrow> (None, Some nilDereference)
      | Some eResp \<Rightarrow>
     (case Var req of
        None \<Rightarrow> (None, Some nilDereference)
      | Some v \<Rightarrow>
          let out = \<lparr>rOp = eOp eResp, Input = Var req, Result = eResult eResp,
                     Error = eError eResp, Conflict = None, Output = None,
                     rWriteMeta = eWriteMeta eResp\<rparr>;
              canRead = hasReadPermission aclObj (Namespace (dMeta v)) (Path (dMeta v));
              isManagement = IsManagement aclObj
          in
          if IsOk eResp then
            (case WrittenSVMeta eResp of
               None \<Rightarrow> (Some out, None)
             | Some written \<Rightarrow>
                 (case isCallerOwner req written of
                    Inl p \<Rightarrow> (None, Some p)
                  | Inr owner \<Rightarrow>
                      let output = \<lparr>dMeta = written, Items = VariableItems_Copy (Items v)\<rparr>;
                          output' = (if \<not> (owner \<or> isManagement)
                                     then output\<lparr>dMeta := (dMeta output)\<lparr>Lock := None\<rparr>\<rparr>
                                     else output)
                      in (Some (out\<lparr>Output := Some output'\<rparr>), None)))
          else if IsError eResp then (Some out, eError eResp)
          else
            (case eConflict eResp of
               None \<Rightarrow> (None, Some nilDereference)
             | Some conflict \<Rightarrow>
                 let out1 = out\<lparr>Conflict := Some \<lparr>dMeta = eMeta conflict, Items = None\<rparr>\<rparr> in
                 if \<not> canRead then (Some (out1\<lparr>Result := VarOpResultRedacted\<rparr>), None)
                 else if KeyID conflict = '''' then
                   (let dv = zeroVariableDecrypted
                               \<lparr>dMeta := zeroVariableMetadata
                                  \<lparr>Namespace := Namespace (eMeta conflict),
                                   Path := Path (eMeta conflict)\<rparr>\<rparr>
                    in (Some (out1\<lparr>Conflict := Some dv\<rparr>), None))
                 else
                   (case decrypt env conflict of
                      Inl err \<Rightarrow> (None, Some err)
                    | Inr dv \<Rightarrow> (Some (out1\<lparr>Conflict := Some dv\<rparr>), None)))))"

subsection \<open>Apply\<close>

text \<open>
  \<open>Apply\<close> returns its error or the reply it filled in, and the server after it. A
  request that \<open>forward\<close> sent to another server is answered there. Metrics are not
  part of the server's state here.

  The function is given in two parts. \<open>Apply_update\<close> is its second half, from
  ``Make a SVEArgs'' to the end: it submits the record \<open>ev\<close> to the raft log, builds
  the reply and calls the lock timers. \<open>Apply\<close> is the first half, up to the switch
  that makes \<open>ev\<close>, and then goes on with \<open>Apply_update\<close>.
\<close>

definition Apply_update ::
  "env \<Rightarrow> VariablesApplyRequest \<Rightarrow> ACL \<Rightarrow> VariableEncrypted option \<Rightarrow> server \<Rightarrow>
     (error + VariablesApplyResponse) \<times> server" where
  "Apply_update env args aclObj ev srv =
     (let sveArgs = \<lparr>sOp = Op args, sVar = ev, sWriteRequest = WriteRequest args\<rparr>;
          applied = raftApply env sveArgs (State srv);
          srv1 = srv\<lparr>State := snd applied, raft_log := raft_log srv @ [sveArgs]\<rparr>
      in
      (case fst applied of
         Inl err \<Rightarrow> (Inl (ErrorfW ''raft apply failed: %w'' err), srv1)
       | Inr (out, index) \<Rightarrow>
      (case makeVariablesApplyResponse env args out aclObj of
         (_, Some err) \<Rightarrow> (Inl err, srv1)
       | (None, None) \<Rightarrow> (Inl nilDereference, srv1)
       | (Some r, None) \<Rightarrow>
      let reply = r\<lparr>rWriteMeta := (rWriteMeta r)\<lparr>Index := index\<rparr>\<rparr> in
      (case out of
         None \<Rightarrow> (Inl nilDereference, srv1)
       | Some applied_out \<Rightarrow>
           if IsOk applied_out then
             (if Op args = VarOpLockAcquire then
                (case ev of
                   None \<Rightarrow> (Inl nilDereference, srv1)
                 | Some e \<Rightarrow>
                     (Inr reply,
                      srv1\<lparr>timers := timers srv1 @
                             [CreateVariableLockTTLTimer (VariableEncrypted_Copy e)]\<rparr>))
              else if Op args = VarOpLockRelease then
                (case ev of
                   None \<Rightarrow> (Inl nilDereference, srv1)
                 | Some e \<Rightarrow>
                     (Inr reply,
                      srv1\<lparr>timers := timers srv1 @
                             [RemoveVariableLockTTLTimer (VariableEncrypted_Copy e)]\<rparr>))
              else (Inr reply, srv1))
           else (Inr reply, srv1)))))"

definition Apply ::
  "env \<Rightarrow> VariablesApplyRequest \<Rightarrow> server \<Rightarrow> (error + VariablesApplyResponse) \<times> server" where
  "Apply env args0 srv =
     (case forwardApply env of
        Some r \<Rightarrow> (r, srv)
      | None \<Rightarrow>
     if Authenticate env \<noteq> None then (Inl ErrPermissionDenied, srv)
     else
     (case Var args0 of
        None \<Rightarrow> (Inl (Errorf ''variable must not be nil''), srv)
      | Some v0 \<Rightarrow>
     let targetNS = (if Namespace (dMeta v0) = '''' then RequestNamespace env
                     else Namespace (dMeta v0));
         v1 = (if Namespace (dMeta v0) = ''''
               then v0\<lparr>dMeta := (dMeta v0)\<lparr>Namespace := targetNS\<rparr>\<rparr> else v0);
         args1 = args0\<lparr>Var := Some v1\<rparr>
     in
     if \<not> ServersMeetMinimumVersion env
     then (Inl (Errorf ''all servers must be running version %v or later to apply variables''),
           srv)
     else
     (case ResolveACL env of
        Inl err \<Rightarrow> (Inl err, srv)
      | Inr aclObj \<Rightarrow>
     (case hasOperationPermissions aclObj (Namespace (dMeta v1)) (Path (dMeta v1)) (Op args1) of
        Some err \<Rightarrow> (Inl err, srv)
      | None \<Rightarrow>
     (case canonicalizeAndValidate env args1 of
        (Some err, _) \<Rightarrow> (Inl (ErrRPCCoded StatusBadRequest (ErrorOf err)), srv)
      | (None, args) \<Rightarrow>
     if Op args = VarOpSet \<or> Op args = VarOpCAS \<or> Op args = VarOpLockAcquire \<or>
        Op args = VarOpLockRelease then
       (case Var args of
          None \<Rightarrow> (Inl nilDereference, srv)
        | Some v \<Rightarrow>
            (case encrypt env v of
               Inl err \<Rightarrow> (Inl (ErrorfW ''variable error: encrypt: %w'' err), srv)
             | Inr ev \<Rightarrow>
                 Apply_update env args aclObj
                   (Some (ev\<lparr>eMeta := (eMeta ev)\<lparr>CreateTime := now env,
                                                    ModifyTime := now env\<rparr>\<rparr>))
                   srv))
     else if Op args = VarOpDelete \<or> Op args = VarOpDeleteCAS then
       (case Var args of
          None \<Rightarrow> (Inl nilDereference, srv)
        | Some v \<Rightarrow>
            Apply_update env args aclObj
              (Some \<lparr>eMeta = zeroVariableMetadata
                               \<lparr>Namespace := Namespace (dMeta v),
                                Path := Path (dMeta v),
                                ModifyIndex := ModifyIndex (dMeta v)\<rparr>,
                     Data = [], KeyID = ''''\<rparr>)
              srv)
     else Apply_update env args aclObj None srv)))))"

subsection \<open>Read\<close>





subsection \<open>RenewLock\<close>

definition RenewLock ::
  "env \<Rightarrow> VariablesRenewLockRequest \<Rightarrow> server \<Rightarrow>
     (error + VariablesRenewLockResponse) \<times> server" where
  "RenewLock env args srv =
     (case forwardRenewLock env of
        Some r \<Rightarrow> (r, srv)
      | None \<Rightarrow>
     if Authenticate env \<noteq> None then (Inl ErrPermissionDenied, srv)
     else
     (case ResolveACL env of
        Inl err \<Rightarrow> (Inl err, srv)
      | Inr aclObj \<Rightarrow>
     if \<not> AllowVariableOperation aclObj (wNamespace (rnWriteRequest args)) (rnPath args)
            VariablesCapabilityWrite None
     then (Inl ErrPermissionDenied, srv)
     else
     (case RenewLockRequest_Validate env of
        Some err \<Rightarrow> (Inl err, srv)
      | None \<Rightarrow>
     (case Snapshot env of
        Some err \<Rightarrow> (Inl err, srv)
      | None \<Rightarrow>
     (case GetVariable env of
        Some err \<Rightarrow> (Inl err, srv)
      | None \<Rightarrow>
     (case variables (State srv) (wNamespace (rnWriteRequest args), rnPath args) of
        None \<Rightarrow> (Inl errVarNotFound, srv)
      | Some encryptedVar \<Rightarrow>
     (case Lock (eMeta encryptedVar) of
        None \<Rightarrow> (Inl errLockNotFound, srv)
      | Some l \<Rightarrow>
     if ID l \<noteq> LockID args then (Inl errVarIsLocked, srv)
     else
     let renewed = VariableEncrypted_Copy encryptedVar;
         srv1 = srv\<lparr>timers := timers srv @ [RenewTTLTimer renewed]\<rparr>
     in
     (case timers_RenewTTLTimer env renewed of
        Some err \<Rightarrow> (Inl errVarIsLocked, srv1)
      | None \<Rightarrow>
          let updatedVar = VariableEncrypted_Copy encryptedVar in
          (Inr \<lparr>VarMeta = Some (eMeta updatedVar), rnIndex = ModifyIndex (eMeta encryptedVar)\<rparr>,
           srv1)))))))))"

subsection \<open>Names for parts of Apply\<close>

text \<open>
  The namespace \<open>Apply\<close> works with (its local \<open>targetNS\<close>): the variable's own,
  or the request's when the variable's is empty; the variable with that namespace written
  into it; the time stamps \<open>Apply\<close> puts on an encrypted record; and the record it
  makes for a delete.
\<close>

definition targetNS :: "env \<Rightarrow> VariableDecrypted \<Rightarrow> string" where
  "targetNS env v =
     (if Namespace (dMeta v) = '''' then RequestNamespace env else Namespace (dMeta v))"

definition inNamespace :: "VariableDecrypted \<Rightarrow> string \<Rightarrow> VariableDecrypted" where
  "inNamespace v ns = v\<lparr>dMeta := (dMeta v)\<lparr>Namespace := ns\<rparr>\<rparr>"

definition stamped :: "env \<Rightarrow> VariableEncrypted \<Rightarrow> VariableEncrypted" where
  "stamped env ev = ev\<lparr>eMeta := (eMeta ev)\<lparr>CreateTime := now env, ModifyTime := now env\<rparr>\<rparr>"

definition deleteRecord :: "VariableDecrypted \<Rightarrow> VariableEncrypted" where
  "deleteRecord v =
     \<lparr>eMeta = zeroVariableMetadata
                \<lparr>Namespace := Namespace (dMeta v), Path := Path (dMeta v),
                 ModifyIndex := ModifyIndex (dMeta v)\<rparr>,
      Data = [], KeyID = ''''\<rparr>"

text \<open>The record \<open>Apply\<close> submits to the raft log.\<close>

definition sveArgs :: "VariablesApplyRequest \<Rightarrow> VariableEncrypted option \<Rightarrow> VarApplyStateRequest" where
  "sveArgs args ev = \<lparr>sOp = Op args, sVar = ev, sWriteRequest = WriteRequest args\<rparr>"

subsection \<open>Concrete requests, callers and collaborators\<close>

text \<open>
  Four callers: one with no capability, one that may write and destroy but not read, one
  with every capability, and a management caller.
\<close>

definition acl_none :: ACL where
  "acl_none = \<lparr>AllowVariableOperation = (\<lambda>ns p cap claim. False), IsManagement = False\<rparr>"

definition acl_writer :: ACL where
  "acl_writer =
     \<lparr>AllowVariableOperation =
        (\<lambda>ns p cap claim. cap = VariablesCapabilityWrite \<or> cap = VariablesCapabilityDestroy),
      IsManagement = False\<rparr>"

definition acl_reader :: ACL where
  "acl_reader = \<lparr>AllowVariableOperation = (\<lambda>ns p cap claim. True), IsManagement = False\<rparr>"

definition acl_management :: ACL where
  "acl_management = \<lparr>AllowVariableOperation = (\<lambda>ns p cap claim. True), IsManagement = True\<rparr>"

definition ex_lock :: VariableLock where
  "ex_lock = \<lparr>ID = ''lock-1'', TTL = 15, LockDelay = 5\<rparr>"

definition ex_meta :: VariableMetadata where
  "ex_meta =
     \<lparr>Namespace = ''default'', Path = ''a/b'', CreateIndex = 1, ModifyIndex = 2,
      CreateTime = 10, ModifyTime = 20, Lock = None\<rparr>"

definition ex_items :: VariableItems where
  "ex_items = Some (fmupd ''k'' ''v'' fmempty)"

definition ex_var :: VariableDecrypted where
  "ex_var = \<lparr>dMeta = ex_meta, Items = ex_items\<rparr>"

definition ex_write :: WriteRequest where
  "ex_write = \<lparr>wNamespace = ''default'', AuthToken = ''token''\<rparr>"

definition ex_request :: "VarOp \<Rightarrow> VariableDecrypted \<Rightarrow> VariablesApplyRequest" where
  "ex_request op v = \<lparr>Op = op, Var = Some v, WriteRequest = ex_write\<rparr>"

text \<open>
  A stored variable, encrypted under key \<open>key-1\<close>, and the same variable holding the lock
  \<open>lock-1\<close>.
\<close>

definition ex_stored :: VariableEncrypted where
  "ex_stored = \<lparr>eMeta = ex_meta, Data = [1], KeyID = ''key-1''\<rparr>"

definition ex_locked :: VariableEncrypted where
  "ex_locked = \<lparr>eMeta = ex_meta\<lparr>Lock := Some ex_lock\<rparr>, Data = [1], KeyID = ''key-1''\<rparr>"

definition ex_store :: "VariableEncrypted \<Rightarrow> StateStore" where
  "ex_store ev =
     \<lparr>variables = (\<lambda>k. if k = (''default'', ''a/b'') then Some ev else None),
      TableVariables_index = 7\<rparr>"

definition ex_empty_store :: StateStore where
  "ex_empty_store = \<lparr>variables = (\<lambda>k. None), TableVariables_index = 7\<rparr>"

definition ex_server :: "StateStore \<Rightarrow> server" where
  "ex_server s = \<lparr>State = s, raft_log = [], timers = []\<rparr>"

text \<open>
  A small state machine for the examples. It keeps the lock discipline of the store: a
  variable that holds a lock is written or deleted only by a record that carries the lock's
  ID, a lock is acquired only on a variable that holds none and released only on one that
  holds one; every other record is answered with a zero-value conflict (namespace and path
  only). A CAS or delete-CAS whose index is not the stored variable's is answered with a
  conflict that carries the stored record (a zero value when nothing is stored). An accepted
  set or CAS keeps the lock the variable holds, an accepted lock acquire stores the record's
  lock, an accepted lock release clears the lock and keeps the payload, an accepted delete
  removes the entry. Every accepted record gets a new index.
\<close>

definition ex_raftApply ::
  "VarApplyStateRequest \<Rightarrow> StateStore \<Rightarrow>
     (error + VarApplyStateResponse option \<times> 64 word) \<times> StateStore" where
  "ex_raftApply req s =
     (case sVar req of
        None \<Rightarrow> (Inl (ErrExternal ''no record''), s)
      | Some ev \<Rightarrow>
          let idx = TableVariables_index s + 1;
              key = (Namespace (eMeta ev), Path (eMeta ev));
              held = (case variables s key of
                        None \<Rightarrow> None
                      | Some stored \<Rightarrow> Lock (eMeta stored));
              holder = (case held of
                          None \<Rightarrow> True
                        | Some l \<Rightarrow>
                            (case Lock (eMeta ev) of
                               None \<Rightarrow> False
                             | Some rl \<Rightarrow> ID rl = ID l))
          in
          if (sOp req = VarOpLockAcquire \<and> held \<noteq> None) \<or>
             (sOp req = VarOpLockRelease \<and> held = None) \<or> \<not> holder then
            (Inr (Some \<lparr>eOp = sOp req, eResult = VarOpResultConflict, eError = None,
                         eConflict =
                           Some \<lparr>eMeta = zeroVariableMetadata
                                            \<lparr>Namespace := Namespace (eMeta ev),
                                             Path := Path (eMeta ev)\<rparr>,
                                 Data = [], KeyID = ''''\<rparr>,
                         WrittenSVMeta = None,
                         eWriteMeta = \<lparr>Index = TableVariables_index s\<rparr>\<rparr>,
                  TableVariables_index s),
             s)
          else if (sOp req = VarOpCAS \<or> sOp req = VarOpDeleteCAS) \<and>
                  ModifyIndex (eMeta ev) \<noteq>
                    (case variables s key of
                       None \<Rightarrow> 0
                     | Some stored \<Rightarrow> ModifyIndex (eMeta stored)) then
            (Inr (Some \<lparr>eOp = sOp req, eResult = VarOpResultConflict, eError = None,
                         eConflict =
                           Some (case variables s key of
                                   None \<Rightarrow>
                                     \<lparr>eMeta = zeroVariableMetadata
                                                \<lparr>Namespace := Namespace (eMeta ev),
                                                 Path := Path (eMeta ev)\<rparr>,
                                      Data = [], KeyID = ''''\<rparr>
                                 | Some stored \<Rightarrow> stored),
                         WrittenSVMeta = None,
                         eWriteMeta = \<lparr>Index = TableVariables_index s\<rparr>\<rparr>,
                  TableVariables_index s),
             s)
          else if sOp req = VarOpDelete \<or> sOp req = VarOpDeleteCAS then
            (Inr (Some \<lparr>eOp = sOp req, eResult = VarOpResultOk, eError = None,
                         eConflict = None, WrittenSVMeta = None,
                         eWriteMeta = \<lparr>Index = idx\<rparr>\<rparr>, idx),
             s\<lparr>variables := (variables s)(key := None), TableVariables_index := idx\<rparr>)
          else
            let payload = (if sOp req = VarOpLockRelease
                           then (case variables s key of None \<Rightarrow> ev | Some stored \<Rightarrow> stored)
                           else ev);
                lock = (if sOp req = VarOpLockAcquire then Lock (eMeta ev)
                        else if sOp req = VarOpLockRelease then None
                        else held);
                written = payload\<lparr>eMeta := (eMeta payload)\<lparr>ModifyIndex := idx, Lock := lock\<rparr>\<rparr>
            in
            (Inr (Some \<lparr>eOp = sOp req, eResult = VarOpResultOk, eError = None,
                         eConflict = None, WrittenSVMeta = Some (eMeta written),
                         eWriteMeta = \<lparr>Index = idx\<rparr>\<rparr>, idx),
             s\<lparr>variables := (variables s)(key := Some written),
               TableVariables_index := idx\<rparr>))"

text \<open>
  An environment in which every collaborator succeeds: the codec knows the items of the
  examples, the encrypter is the identity under key \<open>key-1\<close>.
\<close>

definition ex_env :: "ACL \<Rightarrow> env" where
  "ex_env aclObj =
     \<lparr>forwardApply = None, forwardRead = None, forwardRenewLock = None,
      Authenticate = None, ServersMeetMinimumVersion = True, ResolveACL = Inr aclObj,
      RequestNamespace = ''default'', IdentityToACLClaim = None,
      RenewLockRequest_Validate = None, Snapshot = None, GetVariable = None, now = 1000,
      Canonicalize = (\<lambda>v. v), Validate = (\<lambda>v. None), ValidateForLock = (\<lambda>v. None),
      ValidatePath = (\<lambda>p. None),
      Marshal = (\<lambda>items. Inr (if items = ex_items then [1] else [0])),
      Unmarshal = (\<lambda>b. Inr (if b = [1] then ex_items else Some fmempty)),
      Encrypt = (\<lambda>b. Inr (b, ''key-1'')), Decrypt = (\<lambda>d k. Inr d),
      raftApply = ex_raftApply, timers_RenewTTLTimer = (\<lambda>ev. None)\<rparr>"

text \<open>Answers of the state machine: a success, and conflicts with and without a key.\<close>

definition ex_ok :: "VariableMetadata \<Rightarrow> VarApplyStateResponse" where
  "ex_ok written =
     \<lparr>eOp = VarOpSet, eResult = VarOpResultOk, eError = None, eConflict = None,
      WrittenSVMeta = Some written, eWriteMeta = \<lparr>Index = 8\<rparr>\<rparr>"

definition ex_conflict :: "VariableEncrypted \<Rightarrow> VarApplyStateResponse" where
  "ex_conflict ev =
     \<lparr>eOp = VarOpCAS, eResult = VarOpResultConflict, eError = None, eConflict = Some ev,
      WrittenSVMeta = None, eWriteMeta = \<lparr>Index = 8\<rparr>\<rparr>"

definition ex_keyless :: VariableEncrypted where
  "ex_keyless = \<lparr>eMeta = ex_meta, Data = [1], KeyID = ''''\<rparr>"

text \<open>
  Lock release requests of the holder of \<open>lock-1\<close>: one whose items are an allocated
  map without entries (\<open>VariableItems{}\<close>), one whose items are nil.
\<close>

definition ex_release_empty :: VariablesApplyRequest where
  "ex_release_empty =
     ex_request VarOpLockRelease
       \<lparr>dMeta = ex_meta\<lparr>Lock := Some ex_lock\<rparr>, Items = Some fmempty\<rparr>"

definition ex_release_nil :: VariablesApplyRequest where
  "ex_release_nil =
     ex_request VarOpLockRelease \<lparr>dMeta = ex_meta\<lparr>Lock := Some ex_lock\<rparr>, Items = None\<rparr>"

text \<open>
  The reply \<open>out\<close> of \<open>makeVariablesApplyResponse\<close> as it stands before the
  output or the conflict is filled in.
\<close>

definition conflictOut ::
  "VariablesApplyRequest \<Rightarrow> VarApplyStateResponse \<Rightarrow> VariablesApplyResponse" where
  "conflictOut req eResp =
     \<lparr>rOp = eOp eResp, Input = Var req, Result = eResult eResp, Error = eError eResp,
      Conflict = None, Output = None, rWriteMeta = eWriteMeta eResp\<rparr>"

text \<open>
  A renewal of the lock on \<open>a/b\<close> with a given lock ID, and an environment whose timers
  have no timer for the lock any more (it expired).
\<close>

definition ex_renew :: "string \<Rightarrow> VariablesRenewLockRequest" where
  "ex_renew lockID = \<lparr>rnPath = ''a/b'', LockID = lockID, rnWriteRequest = ex_write\<rparr>"

definition ex_env_expired :: env where
  "ex_env_expired =
     (ex_env acl_writer)\<lparr>timers_RenewTTLTimer := (\<lambda>ev. Some (ErrExternal ''timer not found''))\<rparr>"

text \<open>
  The variable as the lock acquire branch of \<open>canonicalizeAndValidate\<close> hands it to
  \<open>Canonicalize\<close>: without a lock block it gets the zero lock.
\<close>

definition withLockBlock :: "VariableDecrypted \<Rightarrow> VariableDecrypted" where
  "withLockBlock v =
     (if Lock (dMeta v) = None then v\<lparr>dMeta := (dMeta v)\<lparr>Lock := Some zeroVariableLock\<rparr>\<rparr>
      else v)"

text \<open>
  The variable of the examples without a namespace, and in the namespace \<open>prod\<close>; the
  request's namespace in \<open>ex_env\<close> is \<open>default\<close>.
\<close>

definition ex_blank :: VariableDecrypted where
  "ex_blank = \<lparr>dMeta = ex_meta\<lparr>Namespace := ''''\<rparr>, Items = ex_items\<rparr>"

definition ex_prod :: VariableDecrypted where
  "ex_prod = \<lparr>dMeta = ex_meta\<lparr>Namespace := ''prod''\<rparr>, Items = ex_items\<rparr>"

subsection \<open>What the endpoint relies on in its collaborators\<close>





text \<open>
  What \<open>Apply\<close> needs of the structs package's \<open>Canonicalize\<close> for the variable it
  submits to be the caller's: a namespace that is not empty is kept, and so are the items.
\<close>

definition keepsNamespace :: "(VariableDecrypted \<Rightarrow> VariableDecrypted) \<Rightarrow> bool" where
  "keepsNamespace canon \<longleftrightarrow>
     (\<forall>x. Namespace (dMeta x) \<noteq> '''' \<longrightarrow> Namespace (dMeta (canon x)) = Namespace (dMeta x))"

definition keepsItems :: "(VariableDecrypted \<Rightarrow> VariableDecrypted) \<Rightarrow> bool" where
  "keepsItems canon \<longleftrightarrow> (\<forall>x. Items (canon x) = Items x)"

text \<open>
  A \<open>Canonicalize\<close> for the examples: an empty namespace becomes \<open>default\<close>, and a lock
  block gets an ID when it has none, and the default TTL and lock delay when they are zero.
  \<open>ex_env_canonical\<close> is \<open>ex_env\<close> with it.
\<close>

definition ex_Canonicalize :: "VariableDecrypted \<Rightarrow> VariableDecrypted" where
  "ex_Canonicalize v =
     v\<lparr>dMeta := (dMeta v)
          \<lparr>Namespace := (if Namespace (dMeta v) = '''' then ''default''
                          else Namespace (dMeta v)),
           Lock := (case Lock (dMeta v) of
                      None \<Rightarrow> None
                    | Some l \<Rightarrow>
                        Some \<lparr>ID = (if ID l = '''' then ''generated-id'' else ID l),
                              TTL = (if TTL l = 0 then 15 else TTL l),
                              LockDelay = (if LockDelay l = 0 then 5 else LockDelay l)\<rparr>)\<rparr>\<rparr>"

definition ex_env_canonical :: "ACL \<Rightarrow> env" where
  "ex_env_canonical aclObj = (ex_env aclObj)\<lparr>Canonicalize := ex_Canonicalize\<rparr>"

text \<open>
  The zero-value conflict for the variable \<open>a/b\<close> of the namespace \<open>default\<close>, and the
  variable of the examples with a stale index.
\<close>

definition ex_zero_conflict :: VariableEncrypted where
  "ex_zero_conflict =
     \<lparr>eMeta = zeroVariableMetadata\<lparr>Namespace := ''default'', Path := ''a/b''\<rparr>,
      Data = [], KeyID = ''''\<rparr>"

definition ex_stale :: VariableDecrypted where
  "ex_stale = \<lparr>dMeta = ex_meta\<lparr>ModifyIndex := 1\<rparr>, Items = ex_items\<rparr>"

section \<open>Facts about the stages of Apply\<close>

lemmas capability_defs =
  VariablesCapabilityRead_def VariablesCapabilityWrite_def VariablesCapabilityDestroy_def
  PolicyRead_def

lemmas ex_defs =
  ex_env_def ex_request_def ex_var_def ex_meta_def ex_items_def ex_write_def ex_lock_def
  ex_server_def ex_empty_store_def ex_store_def ex_stored_def ex_locked_def ex_raftApply_def
  ex_ok_def ex_conflict_def ex_keyless_def ex_blank_def ex_prod_def
  ex_release_empty_def ex_release_nil_def ex_Canonicalize_def ex_env_canonical_def
  ex_zero_conflict_def ex_stale_def
  acl_none_def acl_writer_def acl_reader_def acl_management_def

lemmas Apply_defs =
  Apply_def Apply_update_def hasOperationPermissions_def canonicalizeAndValidate_def
  encrypt_def decrypt_def makeVariablesApplyResponse_def hasReadPermission_def
  isCallerOwner_def IsOk_def IsError_def VariableItems_Copy_def VariableEncrypted_Copy_def
  zeroVariableMetadata_def zeroVariableDecrypted_def zeroVariableLock_def len_def
  targetNS_def inNamespace_def stamped_def deleteRecord_def sveArgs_def Let_def

lemma Apply_forwarded: "forwardApply env = Some r \<Longrightarrow> Apply env args srv = (r, srv)"
  by (simp add: Apply_def)

lemma Apply_unauthenticated:
  "forwardApply env = None \<Longrightarrow> Authenticate env = Some e \<Longrightarrow>
     Apply env args srv = (Inl ErrPermissionDenied, srv)"
  by (simp add: Apply_def)

lemma Apply_nil_var:
  "forwardApply env = None \<Longrightarrow> Authenticate env = None \<Longrightarrow> Var args = None \<Longrightarrow>
     Apply env args srv = (Inl (Errorf ''variable must not be nil''), srv)"
  by (simp add: Apply_def)

lemma Apply_version:
  "forwardApply env = None \<Longrightarrow> Authenticate env = None \<Longrightarrow> Var args = Some v \<Longrightarrow>
   \<not> ServersMeetMinimumVersion env \<Longrightarrow>
     Apply env args srv =
       (Inl (Errorf ''all servers must be running version %v or later to apply variables''), srv)"
  by (simp add: Apply_def Let_def)

lemma Apply_acl_error:
  "forwardApply env = None \<Longrightarrow> Authenticate env = None \<Longrightarrow> Var args = Some v \<Longrightarrow>
   ServersMeetMinimumVersion env \<Longrightarrow> ResolveACL env = Inl e \<Longrightarrow>
     Apply env args srv = (Inl e, srv)"
  by (simp add: Apply_def Let_def)

lemma Apply_resolved:
  assumes "forwardApply env = None" "Authenticate env = None" "Var args = Some v"
    "ServersMeetMinimumVersion env" "ResolveACL env = Inr aclObj"
  shows "Apply env args srv =
     (case hasOperationPermissions aclObj (targetNS env v) (Path (dMeta v)) (Op args) of
        Some err \<Rightarrow> (Inl err, srv)
      | None \<Rightarrow>
     (case canonicalizeAndValidate env (args\<lparr>Var := Some (inNamespace v (targetNS env v))\<rparr>) of
        (Some err, _) \<Rightarrow> (Inl (ErrRPCCoded StatusBadRequest (ErrorOf err)), srv)
      | (None, args') \<Rightarrow>
     if Op args' = VarOpSet \<or> Op args' = VarOpCAS \<or> Op args' = VarOpLockAcquire \<or>
        Op args' = VarOpLockRelease then
       (case Var args' of
          None \<Rightarrow> (Inl nilDereference, srv)
        | Some v' \<Rightarrow>
            (case encrypt env v' of
               Inl err \<Rightarrow> (Inl (ErrorfW ''variable error: encrypt: %w'' err), srv)
             | Inr ev \<Rightarrow> Apply_update env args' aclObj (Some (stamped env ev)) srv))
     else if Op args' = VarOpDelete \<or> Op args' = VarOpDeleteCAS then
       (case Var args' of
          None \<Rightarrow> (Inl nilDereference, srv)
        | Some v' \<Rightarrow> Apply_update env args' aclObj (Some (deleteRecord v')) srv)
     else Apply_update env args' aclObj None srv))"
  using assms
  by (cases "Namespace (dMeta v) = ''''")
     (simp_all add: Apply_def Let_def targetNS_def inNamespace_def stamped_def deleteRecord_def
        cong: option.case_cong sum.case_cong prod.case_cong if_cong)

lemma hasOperationPermissions_None_iff:
  "hasOperationPermissions aclObj ns p op = None \<longleftrightarrow>
     ((op = VarOpSet \<or> op = VarOpCAS \<or> op = VarOpLockAcquire \<or> op = VarOpLockRelease) \<and>
        AllowVariableOperation aclObj ns p VariablesCapabilityWrite None) \<or>
     ((op = VarOpDelete \<or> op = VarOpDeleteCAS) \<and>
        AllowVariableOperation aclObj ns p VariablesCapabilityDestroy None)"
  by (auto simp: hasOperationPermissions_def Let_def)

lemma hasOperationPermissions_write_denied:
  "op = VarOpSet \<or> op = VarOpCAS \<or> op = VarOpLockAcquire \<or> op = VarOpLockRelease \<Longrightarrow>
   \<not> AllowVariableOperation aclObj ns p VariablesCapabilityWrite None \<Longrightarrow>
     hasOperationPermissions aclObj ns p op = Some ErrPermissionDenied"
  by (auto simp: hasOperationPermissions_def Let_def)

lemma hasOperationPermissions_destroy_denied:
  "op = VarOpDelete \<or> op = VarOpDeleteCAS \<Longrightarrow>
   \<not> AllowVariableOperation aclObj ns p VariablesCapabilityDestroy None \<Longrightarrow>
     hasOperationPermissions aclObj ns p op = Some ErrPermissionDenied"
  by (auto simp: hasOperationPermissions_def Let_def)

lemma canonicalizeAndValidate_Op: "Op (snd (canonicalizeAndValidate env args)) = Op args"
  by (simp add: canonicalizeAndValidate_def Let_def split: option.split)

lemma canonicalizeAndValidate_Var:
  "Var args \<noteq> None \<Longrightarrow> Var (snd (canonicalizeAndValidate env args)) \<noteq> None"
  by (auto simp add: canonicalizeAndValidate_def Let_def split: option.split)

lemma canonicalizeAndValidate_WriteRequest:
  "WriteRequest (snd (canonicalizeAndValidate env args)) = WriteRequest args"
  by (simp add: canonicalizeAndValidate_def Let_def split: option.split)

text \<open>
  What \<open>Apply_update\<close> does to the raft log, the state store and the timers, and the
  two ways \<open>Apply\<close> ends for a request it handles itself: it refuses the request and
  leaves the server as it was, or it goes on with \<open>Apply_update\<close> on a record it made.
\<close>

lemma Apply_update_outcome:
  assumes "Apply_update env args aclObj (Some ev) srv = (res, srv')"
  shows "raft_log srv' = raft_log srv @ [sveArgs args (Some ev)] \<and>
     State srv' = snd (raftApply env (sveArgs args (Some ev)) (State srv)) \<and>
     (\<forall>e. res = Inl e \<longrightarrow> timers srv' = timers srv) \<and>
     (\<forall>reply. res = Inr reply \<longrightarrow>
        (\<exists>out index.
           fst (raftApply env (sveArgs args (Some ev)) (State srv)) = Inr (Some out, index) \<and>
           timers srv' = timers srv @
             (if IsOk out \<and> Op args = VarOpLockAcquire
              then [CreateVariableLockTTLTimer (VariableEncrypted_Copy ev)]
              else if IsOk out \<and> Op args = VarOpLockRelease
              then [RemoveVariableLockTTLTimer (VariableEncrypted_Copy ev)]
              else [])))"
  using assms
  by (auto simp: Apply_update_def sveArgs_def Let_def
        split: sum.splits prod.splits option.splits if_splits)

lemma Apply_cases:
  assumes fw: "forwardApply env = None"
  obtains (refused) e where "Apply env args srv = (Inl e, srv)"
  | (update) v aclObj args' v' ev where
      "Authenticate env = None" "Var args = Some v" "ServersMeetMinimumVersion env"
      "ResolveACL env = Inr aclObj"
      "hasOperationPermissions aclObj (targetNS env v) (Path (dMeta v)) (Op args) = None"
      "canonicalizeAndValidate env (args\<lparr>Var := Some (inNamespace v (targetNS env v))\<rparr>) =
         (None, args')"
      "Op args' = Op args" "Var args' = Some v'"
      "((Op args = VarOpSet \<or> Op args = VarOpCAS \<or> Op args = VarOpLockAcquire \<or>
         Op args = VarOpLockRelease) \<and>
        (\<exists>e0. encrypt env v' = Inr e0 \<and> ev = stamped env e0)) \<or>
       ((Op args = VarOpDelete \<or> Op args = VarOpDeleteCAS) \<and> ev = deleteRecord v')"
      "Apply env args srv = Apply_update env args' aclObj (Some ev) srv"
proof (cases "Authenticate env")
  case (Some e)
  then show ?thesis using fw refused by (simp add: Apply_unauthenticated)
next
  case au: None
  show ?thesis
  proof (cases "Var args")
    case None
    then show ?thesis using fw au refused by (simp add: Apply_nil_var)
  next
    case va: (Some v)
    show ?thesis
    proof (cases "ServersMeetMinimumVersion env")
      case False
      then show ?thesis using fw au va refused by (simp add: Apply_version)
    next
      case ve: True
      show ?thesis
      proof (cases "ResolveACL env")
        case (Inl e)
        then show ?thesis using fw au va ve refused by (simp add: Apply_acl_error)
      next
        case ac: (Inr aclObj)
        note res = Apply_resolved [OF fw au va ve ac, of srv]
        let ?args1 = "args\<lparr>Var := Some (inNamespace v (targetNS env v))\<rparr>"
        show ?thesis
        proof (cases "hasOperationPermissions aclObj (targetNS env v) (Path (dMeta v)) (Op args)")
          case (Some e)
          then show ?thesis using res refused by simp
        next
          case pm: None
          obtain err args' where cv: "canonicalizeAndValidate env ?args1 = (err, args')"
            by (cases "canonicalizeAndValidate env ?args1")
          have op: "Op args' = Op args"
            using canonicalizeAndValidate_Op [of env ?args1] cv by simp
          have "Var args' \<noteq> None"
            using canonicalizeAndValidate_Var [of ?args1 env] cv by simp
          then obtain v' where v': "Var args' = Some v'" by auto
          show ?thesis
          proof (cases err)
            case (Some e)
            then show ?thesis using res pm cv refused by simp
          next
            case None
            with cv have cv': "canonicalizeAndValidate env ?args1 = (None, args')" by simp
            from pm consider
                (w) "Op args = VarOpSet \<or> Op args = VarOpCAS \<or> Op args = VarOpLockAcquire \<or>
                     Op args = VarOpLockRelease"
              | (d) "Op args = VarOpDelete \<or> Op args = VarOpDeleteCAS"
              unfolding hasOperationPermissions_None_iff by blast
            then show ?thesis
            proof cases
              case w
              show ?thesis
              proof (cases "encrypt env v'")
                case (Inl e)
                then show ?thesis using res pm cv' op v' w refused by simp
              next
                case (Inr e0)
                have "Apply env args srv = Apply_update env args' aclObj (Some (stamped env e0)) srv"
                  using res pm cv' op v' w Inr by simp
                with au va ve ac pm cv' op v' w Inr show ?thesis
                  by (intro update [of v aclObj args' v' "stamped env e0"]) auto
              qed
            next
              case d
              then have nw: "\<not> (Op args = VarOpSet \<or> Op args = VarOpCAS \<or>
                  Op args = VarOpLockAcquire \<or> Op args = VarOpLockRelease)" by auto
              have "Apply env args srv = Apply_update env args' aclObj (Some (deleteRecord v')) srv"
                using res pm cv' op v' d nw by simp
              with au va ve ac pm cv' op v' d show ?thesis
                by (intro update [of v aclObj args' v' "deleteRecord v'"]) auto
            qed
          qed
        qed
      qed
    qed
  qed
qed

text \<open>
  The variable that leaves a successful validation, the metadata of an encrypted record,
  and the namespace of a variable whose namespace was defaulted.
\<close>

lemma canonicalizeAndValidate_validated:
  assumes "canonicalizeAndValidate env a = (None, a')" and "Var a = Some x"
  shows "Var a' =
     Some (if Op a = VarOpLockAcquire then Canonicalize env (withLockBlock x)
           else if Op a = VarOpSet \<or> Op a = VarOpCAS then Canonicalize env x
           else x)"
  using assms
  by (auto simp: canonicalizeAndValidate_def withLockBlock_def Let_def
        split: option.splits if_splits)

lemma encrypt_eMeta: "encrypt env v = Inr ev \<Longrightarrow> eMeta ev = dMeta v"
  by (auto simp: encrypt_def split: sum.splits prod.splits)

lemma targetNS_inNamespace [simp]: "targetNS env (inNamespace v (targetNS env v)) = targetNS env v"
  by (simp add: targetNS_def inNamespace_def)

lemma inNamespace_idem [simp]: "inNamespace (inNamespace v ns) ns = inNamespace v ns"
  by (simp add: inNamespace_def)

lemma inNamespace_Path [simp]: "Path (dMeta (inNamespace v ns)) = Path (dMeta v)"
  by (simp add: inNamespace_def)


lemma ex_Canonicalize_keeps: "keepsNamespace ex_Canonicalize \<and> keepsItems ex_Canonicalize"
  by (simp add: keepsNamespace_def keepsItems_def ex_Canonicalize_def)

lemma Apply_update_reply:
  assumes "Apply_update env args aclObj (Some ev) srv = (Inr reply, srv')"
  shows "\<exists>out index r.
     fst (raftApply env (sveArgs args (Some ev)) (State srv)) = Inr (Some out, index) \<and>
     makeVariablesApplyResponse env args (Some out) aclObj = (Some r, None) \<and>
     reply = r\<lparr>rWriteMeta := (rWriteMeta r)\<lparr>Index := index\<rparr>\<rparr>"
  using assms
  by (auto simp: Apply_update_def sveArgs_def Let_def
        split: sum.splits prod.splits option.splits if_splits)

lemma Apply_replied:
  assumes fw: "forwardApply env = None" and ap: "Apply env args srv = (Inr reply, srv')"
  obtains v aclObj args' v' ev out index r where
    "Var args = Some v" and "ResolveACL env = Inr aclObj"
    and "hasOperationPermissions aclObj (targetNS env v) (Path (dMeta v)) (Op args) = None"
    and "canonicalizeAndValidate env (args\<lparr>Var := Some (inNamespace v (targetNS env v))\<rparr>) =
           (None, args')"
    and "Op args' = Op args" and "Var args' = Some v'"
    and "v' = (if Op args = VarOpLockAcquire
               then Canonicalize env (withLockBlock (inNamespace v (targetNS env v)))
               else if Op args = VarOpSet \<or> Op args = VarOpCAS
               then Canonicalize env (inNamespace v (targetNS env v))
               else inNamespace v (targetNS env v))"
    and "Namespace (eMeta ev) = Namespace (dMeta v')" and "Path (eMeta ev) = Path (dMeta v')"
    and "Op args = VarOpDelete \<or> Op args = VarOpDeleteCAS \<Longrightarrow> Lock (eMeta ev) = None"
    and "raft_log srv' = raft_log srv @ [sveArgs args' (Some ev)]"
    and "State srv' = snd (raftApply env (sveArgs args' (Some ev)) (State srv))"
    and "fst (raftApply env (sveArgs args' (Some ev)) (State srv)) = Inr (Some out, index)"
    and "makeVariablesApplyResponse env args' (Some out) aclObj = (Some r, None)"
    and "reply = r\<lparr>rWriteMeta := (rWriteMeta r)\<lparr>Index := index\<rparr>\<rparr>"
    and "timers srv' = timers srv @
           (if IsOk out \<and> Op args = VarOpLockAcquire
            then [CreateVariableLockTTLTimer (VariableEncrypted_Copy ev)]
            else if IsOk out \<and> Op args = VarOpLockRelease
            then [RemoveVariableLockTTLTimer (VariableEncrypted_Copy ev)]
            else [])"
proof (rule Apply_cases [OF fw, of args srv])
  fix e assume "Apply env args srv = (Inl e, srv)"
  with ap show ?thesis by simp
next
  fix v aclObj args' v' ev
  assume va: "Var args = Some v" and ac: "ResolveACL env = Inr aclObj"
    and pm: "hasOperationPermissions aclObj (targetNS env v) (Path (dMeta v)) (Op args) = None"
    and cv: "canonicalizeAndValidate env
               (args\<lparr>Var := Some (inNamespace v (targetNS env v))\<rparr>) = (None, args')"
    and op: "Op args' = Op args" and v': "Var args' = Some v'"
    and ev: "((Op args = VarOpSet \<or> Op args = VarOpCAS \<or> Op args = VarOpLockAcquire \<or>
         Op args = VarOpLockRelease) \<and>
        (\<exists>e0. encrypt env v' = Inr e0 \<and> ev = stamped env e0)) \<or>
       ((Op args = VarOpDelete \<or> Op args = VarOpDeleteCAS) \<and> ev = deleteRecord v')"
    and upd: "Apply env args srv = Apply_update env args' aclObj (Some ev) srv"
  let ?v = "inNamespace v (targetNS env v)"
  from upd ap have u: "Apply_update env args' aclObj (Some ev) srv = (Inr reply, srv')"
    by simp
  note out = Apply_update_outcome [OF u]
  from Apply_update_reply [OF u] obtain out' index r where
    ans: "fst (raftApply env (sveArgs args' (Some ev)) (State srv)) = Inr (Some out', index)"
    and mk: "makeVariablesApplyResponse env args' (Some out') aclObj = (Some r, None)"
    and rp: "reply = r\<lparr>rWriteMeta := (rWriteMeta r)\<lparr>Index := index\<rparr>\<rparr>"
    by blast
  have tm: "timers srv' = timers srv @
           (if IsOk out' \<and> Op args = VarOpLockAcquire
            then [CreateVariableLockTTLTimer (VariableEncrypted_Copy ev)]
            else if IsOk out' \<and> Op args = VarOpLockRelease
            then [RemoveVariableLockTTLTimer (VariableEncrypted_Copy ev)]
            else [])"
    using out ans op by auto
  have "Var args' =
      Some (if Op (args\<lparr>Var := Some ?v\<rparr>) = VarOpLockAcquire
            then Canonicalize env (withLockBlock ?v)
            else if Op (args\<lparr>Var := Some ?v\<rparr>) = VarOpSet \<or>
                    Op (args\<lparr>Var := Some ?v\<rparr>) = VarOpCAS
            then Canonicalize env ?v
            else ?v)"
    using cv by (intro canonicalizeAndValidate_validated) simp_all
  with v' have veq: "v' = (if Op args = VarOpLockAcquire
               then Canonicalize env (withLockBlock ?v)
               else if Op args = VarOpSet \<or> Op args = VarOpCAS
               then Canonicalize env ?v
               else ?v)"
    by (auto split: if_splits)
  have ns: "Namespace (eMeta ev) = Namespace (dMeta v')"
    and pa: "Path (eMeta ev) = Path (dMeta v')"
    using ev by (auto simp: stamped_def deleteRecord_def zeroVariableMetadata_def
        dest: encrypt_eMeta)
  have lk: "Lock (eMeta ev) = None" if "Op args = VarOpDelete \<or> Op args = VarOpDeleteCAS"
    using ev that by (auto simp: deleteRecord_def zeroVariableMetadata_def)
  from out have lg: "raft_log srv' = raft_log srv @ [sveArgs args' (Some ev)]"
    and st: "State srv' = snd (raftApply env (sveArgs args' (Some ev)) (State srv))"
    by simp_all
  show ?thesis
    by (rule that [OF va ac pm cv op v' veq ns pa lk lg st ans mk rp tm])
qed

lemma withLockBlock_Items [simp]: "Items (withLockBlock x) = Items x"
  by (simp add: withLockBlock_def)

lemma inNamespace_Items [simp]: "Items (inNamespace x ns) = Items x"
  by (simp add: inNamespace_def)

lemma withLockBlock_Namespace [simp]:
  "Namespace (dMeta (withLockBlock x)) = Namespace (dMeta x)"
  by (simp add: withLockBlock_def)

lemma inNamespace_Namespace [simp]: "Namespace (dMeta (inNamespace x ns)) = ns"
  by (simp add: inNamespace_def)


section \<open>Authorization of the write path\<close>

text \<open>
  Claim C1. A request that reaches the ACL check of \<open>Apply\<close> (it was not forwarded, it
  authenticated, it carries a variable, the servers meet the minimum version and the ACL
  resolved) is refused with \<open>ErrPermissionDenied\<close>, the server unchanged, when it is a
  set, CAS, lock acquire or lock release and the caller lacks the write capability on the
  target namespace and path, and when it is a delete or delete-CAS and the caller lacks the
  destroy capability. And for every request whatever: when \<open>Apply\<close> changes the server
  (a record reached the raft log), the request carries a variable, the ACL resolved, the
  operation is one of the six and the caller holds the capability it needs.
\<close>

theorem Apply_requires_capability:
  "(forwardApply env = None \<and> Authenticate env = None \<and> Var args = Some v \<and>
    ServersMeetMinimumVersion env \<and> ResolveACL env = Inr aclObj \<longrightarrow>
      ((Op args = VarOpSet \<or> Op args = VarOpCAS \<or> Op args = VarOpLockAcquire \<or>
        Op args = VarOpLockRelease) \<and>
       \<not> AllowVariableOperation aclObj (targetNS env v) (Path (dMeta v))
           VariablesCapabilityWrite None \<longrightarrow>
         Apply env args srv = (Inl ErrPermissionDenied, srv)) \<and>
      ((Op args = VarOpDelete \<or> Op args = VarOpDeleteCAS) \<and>
       \<not> AllowVariableOperation aclObj (targetNS env v) (Path (dMeta v))
           VariablesCapabilityDestroy None \<longrightarrow>
         Apply env args srv = (Inl ErrPermissionDenied, srv))) \<and>
   (snd (Apply env args srv) \<noteq> srv \<longrightarrow>
      (\<exists>w acl. Var args = Some w \<and> ResolveACL env = Inr acl \<and>
         (((Op args = VarOpSet \<or> Op args = VarOpCAS \<or> Op args = VarOpLockAcquire \<or>
            Op args = VarOpLockRelease) \<and>
           AllowVariableOperation acl (targetNS env w) (Path (dMeta w))
             VariablesCapabilityWrite None) \<or>
          ((Op args = VarOpDelete \<or> Op args = VarOpDeleteCAS) \<and>
           AllowVariableOperation acl (targetNS env w) (Path (dMeta w))
             VariablesCapabilityDestroy None))))"
proof (intro conjI impI)
  assume pre: "forwardApply env = None \<and> Authenticate env = None \<and> Var args = Some v \<and>
    ServersMeetMinimumVersion env \<and> ResolveACL env = Inr aclObj"
  then have res: "Apply env args srv =
     (case hasOperationPermissions aclObj (targetNS env v) (Path (dMeta v)) (Op args) of
        Some err \<Rightarrow> (Inl err, srv)
      | None \<Rightarrow>
          (case canonicalizeAndValidate env
                  (args\<lparr>Var := Some (inNamespace v (targetNS env v))\<rparr>) of
             (Some err, _) \<Rightarrow> (Inl (ErrRPCCoded StatusBadRequest (ErrorOf err)), srv)
           | (None, args') \<Rightarrow>
               if Op args' = VarOpSet \<or> Op args' = VarOpCAS \<or> Op args' = VarOpLockAcquire \<or>
                  Op args' = VarOpLockRelease then
                 (case Var args' of
                    None \<Rightarrow> (Inl nilDereference, srv)
                  | Some v' \<Rightarrow>
                      (case encrypt env v' of
                         Inl err \<Rightarrow> (Inl (ErrorfW ''variable error: encrypt: %w'' err), srv)
                       | Inr ev \<Rightarrow> Apply_update env args' aclObj (Some (stamped env ev)) srv))
               else if Op args' = VarOpDelete \<or> Op args' = VarOpDeleteCAS then
                 (case Var args' of
                    None \<Rightarrow> (Inl nilDereference, srv)
                  | Some v' \<Rightarrow> Apply_update env args' aclObj (Some (deleteRecord v')) srv)
               else Apply_update env args' aclObj None srv))"
    by (intro Apply_resolved) simp_all
  have denied: "Apply env args srv = (Inl err, srv)"
    if "hasOperationPermissions aclObj (targetNS env v) (Path (dMeta v)) (Op args) = Some err"
    for err
    using that by (simp add: res)
  {
    assume "(Op args = VarOpSet \<or> Op args = VarOpCAS \<or> Op args = VarOpLockAcquire \<or>
        Op args = VarOpLockRelease) \<and>
       \<not> AllowVariableOperation aclObj (targetNS env v) (Path (dMeta v))
           VariablesCapabilityWrite None"
    then show "Apply env args srv = (Inl ErrPermissionDenied, srv)"
      by (intro denied hasOperationPermissions_write_denied) simp_all
  }
  {
    assume "(Op args = VarOpDelete \<or> Op args = VarOpDeleteCAS) \<and>
       \<not> AllowVariableOperation aclObj (targetNS env v) (Path (dMeta v))
           VariablesCapabilityDestroy None"
    then show "Apply env args srv = (Inl ErrPermissionDenied, srv)"
      by (intro denied hasOperationPermissions_destroy_denied) simp_all
  }
next
  assume changed: "snd (Apply env args srv) \<noteq> srv"
  show "\<exists>w acl. Var args = Some w \<and> ResolveACL env = Inr acl \<and>
         (((Op args = VarOpSet \<or> Op args = VarOpCAS \<or> Op args = VarOpLockAcquire \<or>
            Op args = VarOpLockRelease) \<and>
           AllowVariableOperation acl (targetNS env w) (Path (dMeta w))
             VariablesCapabilityWrite None) \<or>
          ((Op args = VarOpDelete \<or> Op args = VarOpDeleteCAS) \<and>
           AllowVariableOperation acl (targetNS env w) (Path (dMeta w))
             VariablesCapabilityDestroy None))"
  proof (cases "forwardApply env")
    case (Some r)
    with changed show ?thesis by (simp add: Apply_forwarded)
  next
    case None
    show ?thesis
    proof (rule Apply_cases [OF None, of args srv])
      fix e assume "Apply env args srv = (Inl e, srv)"
      with changed show ?thesis by simp
    next
      fix w acl
      assume "Var args = Some w" and "ResolveACL env = Inr acl"
        and "hasOperationPermissions acl (targetNS env w) (Path (dMeta w)) (Op args) = None"
      then show ?thesis
        unfolding hasOperationPermissions_None_iff by blast
    qed
  qed
qed

theorem Apply_requires_capability_witness:
  "forwardApply (ex_env acl_none) = None \<and> Authenticate (ex_env acl_none) = None \<and>
   Var (ex_request VarOpSet ex_var) = Some ex_var \<and>
   ServersMeetMinimumVersion (ex_env acl_none) \<and>
   ResolveACL (ex_env acl_none) = Inr acl_none \<and>
   Op (ex_request VarOpSet ex_var) = VarOpSet \<and>
   \<not> AllowVariableOperation acl_none (targetNS (ex_env acl_none) ex_var)
       (Path (dMeta ex_var)) VariablesCapabilityWrite None \<and>
   Apply (ex_env acl_none) (ex_request VarOpSet ex_var) (ex_server ex_empty_store) =
     (Inl ErrPermissionDenied, ex_server ex_empty_store) \<and>
   snd (Apply (ex_env acl_writer) (ex_request VarOpSet ex_var) (ex_server ex_empty_store)) \<noteq>
     ex_server ex_empty_store \<and>
   (\<exists>w acl. Var (ex_request VarOpSet ex_var) = Some w \<and>
      ResolveACL (ex_env acl_writer) = Inr acl \<and>
      AllowVariableOperation acl (targetNS (ex_env acl_writer) w) (Path (dMeta w))
        VariablesCapabilityWrite None)"
proof -
  have pre: "forwardApply (ex_env acl_none) = None \<and> Authenticate (ex_env acl_none) = None \<and>
    Var (ex_request VarOpSet ex_var) = Some ex_var \<and>
    ServersMeetMinimumVersion (ex_env acl_none) \<and>
    ResolveACL (ex_env acl_none) = Inr acl_none"
    by (simp add: ex_env_def ex_request_def)
  have op: "Op (ex_request VarOpSet ex_var) = VarOpSet"
    by (simp add: ex_request_def)
  have no: "\<not> AllowVariableOperation acl_none (targetNS (ex_env acl_none) ex_var)
       (Path (dMeta ex_var)) VariablesCapabilityWrite None"
    by (simp add: acl_none_def)
  from Apply_requires_capability
         [of "ex_env acl_none" "ex_request VarOpSet ex_var" ex_var acl_none
             "ex_server ex_empty_store"] pre op no
  have refused:
    "Apply (ex_env acl_none) (ex_request VarOpSet ex_var) (ex_server ex_empty_store) =
       (Inl ErrPermissionDenied, ex_server ex_empty_store)"
    by blast
  have "raft_log (snd (Apply (ex_env acl_writer) (ex_request VarOpSet ex_var)
                         (ex_server ex_empty_store))) \<noteq> raft_log (ex_server ex_empty_store)"
    by (simp add: Apply_defs ex_defs capability_defs)
  then have changed:
    "snd (Apply (ex_env acl_writer) (ex_request VarOpSet ex_var) (ex_server ex_empty_store)) \<noteq>
       ex_server ex_empty_store"
    by auto
  from Apply_requires_capability
         [of "ex_env acl_writer" "ex_request VarOpSet ex_var" ex_var acl_writer
             "ex_server ex_empty_store"] changed op
  have granted: "\<exists>w acl. Var (ex_request VarOpSet ex_var) = Some w \<and>
      ResolveACL (ex_env acl_writer) = Inr acl \<and>
      AllowVariableOperation acl (targetNS (ex_env acl_writer) w) (Path (dMeta w))
        VariablesCapabilityWrite None"
    by auto
  from pre op no refused changed granted show ?thesis by blast
qed

section \<open>The reply to a conflict\<close>

lemma conflict_redacted:
  assumes "\<not> IsOk eResp" "\<not> IsError eResp" "eConflict eResp = Some c" "Var req = Some v"
    and "\<not> hasReadPermission aclObj (Namespace (dMeta v)) (Path (dMeta v))"
  shows "makeVariablesApplyResponse env req (Some eResp) aclObj =
     (Some ((conflictOut req eResp)
              \<lparr>Result := VarOpResultRedacted,
               Conflict := Some \<lparr>dMeta = eMeta c, Items = None\<rparr>\<rparr>), None)"
  using assms by (simp add: makeVariablesApplyResponse_def conflictOut_def Let_def)

lemma conflict_keyless:
  assumes "\<not> IsOk eResp" "\<not> IsError eResp" "eConflict eResp = Some c" "Var req = Some v"
    and "hasReadPermission aclObj (Namespace (dMeta v)) (Path (dMeta v))"
    and "KeyID c = ''''"
  shows "makeVariablesApplyResponse env req (Some eResp) aclObj =
     (Some ((conflictOut req eResp)
              \<lparr>Conflict :=
                 Some \<lparr>dMeta = zeroVariableMetadata
                                  \<lparr>Namespace := Namespace (eMeta c), Path := Path (eMeta c)\<rparr>,
                       Items = None\<rparr>\<rparr>), None)"
  using assms
  by (simp add: makeVariablesApplyResponse_def conflictOut_def zeroVariableDecrypted_def Let_def)

lemma conflict_decrypted:
  assumes "\<not> IsOk eResp" "\<not> IsError eResp" "eConflict eResp = Some c" "Var req = Some v"
    and "hasReadPermission aclObj (Namespace (dMeta v)) (Path (dMeta v))"
    and "KeyID c \<noteq> ''''"
  shows "makeVariablesApplyResponse env req (Some eResp) aclObj =
     (case decrypt env c of
        Inl err \<Rightarrow> (None, Some err)
      | Inr dv \<Rightarrow> (Some ((conflictOut req eResp)\<lparr>Conflict := Some dv\<rparr>), None))"
  using assms
  by (simp add: makeVariablesApplyResponse_def conflictOut_def Let_def
        cong: sum.case_cong)


text \<open>
  Claim C2, as the code has it. A caller without the read capability gets the conflict's
  metadata with no items and the result \<open>VarOpResultRedacted\<close>, and the reply is the same
  whatever the encrypter and the decoder would answer: the payload is not decrypted. A
  caller with the read capability gets the decrypted payload as the conflict's items when
  the conflicting record names a key (\<open>KeyID\<close> is not empty) and the decryption succeeds;
  when the decryption fails there is no reply but its error. A conflicting record without a
  key is not decrypted: the conflict carries no items.
\<close>

theorem conflict_redaction:
  assumes "\<not> IsOk eResp" and "\<not> IsError eResp" and "eConflict eResp = Some c"
    and "Var req = Some v"
  shows
    "(\<not> hasReadPermission aclObj (Namespace (dMeta v)) (Path (dMeta v)) \<longrightarrow>
        (\<exists>out. makeVariablesApplyResponse env req (Some eResp) aclObj = (Some out, None) \<and>
           Conflict out = Some \<lparr>dMeta = eMeta c, Items = None\<rparr> \<and>
           Result out = VarOpResultRedacted) \<and>
        (\<forall>env'. makeVariablesApplyResponse env' req (Some eResp) aclObj =
                 makeVariablesApplyResponse env req (Some eResp) aclObj)) \<and>
     (hasReadPermission aclObj (Namespace (dMeta v)) (Path (dMeta v)) \<and> KeyID c \<noteq> '''' \<longrightarrow>
        (\<forall>b items. Decrypt env (Data c) (KeyID c) = Inr b \<and> Unmarshal env b = Inr items \<longrightarrow>
           (\<exists>out. makeVariablesApplyResponse env req (Some eResp) aclObj = (Some out, None) \<and>
              Conflict out = Some \<lparr>dMeta = eMeta c, Items = items\<rparr> \<and>
              Result out = eResult eResp)) \<and>
        (\<forall>err. decrypt env c = Inl err \<longrightarrow>
           makeVariablesApplyResponse env req (Some eResp) aclObj = (None, Some err))) \<and>
     (hasReadPermission aclObj (Namespace (dMeta v)) (Path (dMeta v)) \<and> KeyID c = '''' \<longrightarrow>
        (\<exists>out. makeVariablesApplyResponse env req (Some eResp) aclObj = (Some out, None) \<and>
           (\<exists>m. Conflict out = Some \<lparr>dMeta = m, Items = None\<rparr>) \<and>
           Result out = eResult eResp) \<and>
        (\<forall>env'. makeVariablesApplyResponse env' req (Some eResp) aclObj =
                 makeVariablesApplyResponse env req (Some eResp) aclObj))"
proof (intro conjI impI)
  assume no: "\<not> hasReadPermission aclObj (Namespace (dMeta v)) (Path (dMeta v))"
  show "\<exists>out. makeVariablesApplyResponse env req (Some eResp) aclObj = (Some out, None) \<and>
           Conflict out = Some \<lparr>dMeta = eMeta c, Items = None\<rparr> \<and>
           Result out = VarOpResultRedacted"
    by (simp add: conflict_redacted [OF assms no])
  show "\<forall>env'. makeVariablesApplyResponse env' req (Some eResp) aclObj =
                 makeVariablesApplyResponse env req (Some eResp) aclObj"
    by (simp add: conflict_redacted [OF assms no])
next
  assume "hasReadPermission aclObj (Namespace (dMeta v)) (Path (dMeta v)) \<and> KeyID c \<noteq> ''''"
  then have rd: "hasReadPermission aclObj (Namespace (dMeta v)) (Path (dMeta v))"
    and key: "KeyID c \<noteq> ''''" by simp_all
  note eq = conflict_decrypted [OF assms rd key]
  show "\<forall>b items. Decrypt env (Data c) (KeyID c) = Inr b \<and> Unmarshal env b = Inr items \<longrightarrow>
           (\<exists>out. makeVariablesApplyResponse env req (Some eResp) aclObj = (Some out, None) \<and>
              Conflict out = Some \<lparr>dMeta = eMeta c, Items = items\<rparr> \<and>
              Result out = eResult eResp)"
    by (simp add: eq decrypt_def conflictOut_def)
  show "\<forall>err. decrypt env c = Inl err \<longrightarrow>
           makeVariablesApplyResponse env req (Some eResp) aclObj = (None, Some err)"
    by (simp add: eq)
next
  assume "hasReadPermission aclObj (Namespace (dMeta v)) (Path (dMeta v)) \<and> KeyID c = ''''"
  then have rd: "hasReadPermission aclObj (Namespace (dMeta v)) (Path (dMeta v))"
    and key: "KeyID c = ''''" by simp_all
  note eq = conflict_keyless [OF assms rd key]
  show "\<exists>out. makeVariablesApplyResponse env req (Some eResp) aclObj = (Some out, None) \<and>
           (\<exists>m. Conflict out = Some \<lparr>dMeta = m, Items = None\<rparr>) \<and>
           Result out = eResult eResp"
    by (simp add: eq conflictOut_def)
  show "\<forall>env'. makeVariablesApplyResponse env' req (Some eResp) aclObj =
                 makeVariablesApplyResponse env req (Some eResp) aclObj"
    by (simp add: eq)
qed

theorem conflict_redaction_witness:
  "\<not> IsOk (ex_conflict ex_stored) \<and> \<not> IsError (ex_conflict ex_stored) \<and>
   eConflict (ex_conflict ex_stored) = Some ex_stored \<and>
   Var (ex_request VarOpCAS ex_var) = Some ex_var \<and>
   \<not> hasReadPermission acl_writer (Namespace (dMeta ex_var)) (Path (dMeta ex_var)) \<and>
   (\<exists>out. makeVariablesApplyResponse (ex_env acl_writer) (ex_request VarOpCAS ex_var)
             (Some (ex_conflict ex_stored)) acl_writer = (Some out, None) \<and>
          Conflict out = Some \<lparr>dMeta = eMeta ex_stored, Items = None\<rparr> \<and>
          Result out = VarOpResultRedacted) \<and>
   hasReadPermission acl_reader (Namespace (dMeta ex_var)) (Path (dMeta ex_var)) \<and>
   KeyID ex_stored \<noteq> '''' \<and>
   Decrypt (ex_env acl_reader) (Data ex_stored) (KeyID ex_stored) = Inr [1] \<and>
   Unmarshal (ex_env acl_reader) [1] = Inr ex_items \<and>
   (\<exists>out. makeVariablesApplyResponse (ex_env acl_reader) (ex_request VarOpCAS ex_var)
             (Some (ex_conflict ex_stored)) acl_reader = (Some out, None) \<and>
          Conflict out = Some \<lparr>dMeta = eMeta ex_stored, Items = ex_items\<rparr> \<and>
          Result out = eResult (ex_conflict ex_stored))"
proof -
  have a: "\<not> IsOk (ex_conflict ex_stored)" and b: "\<not> IsError (ex_conflict ex_stored)"
    and c: "eConflict (ex_conflict ex_stored) = Some ex_stored"
    and d: "Var (ex_request VarOpCAS ex_var) = Some ex_var"
    by (simp_all add: IsOk_def IsError_def ex_conflict_def ex_request_def)
  have no: "\<not> hasReadPermission acl_writer (Namespace (dMeta ex_var)) (Path (dMeta ex_var))"
    by (simp add: hasReadPermission_def acl_writer_def capability_defs)
  have rd: "hasReadPermission acl_reader (Namespace (dMeta ex_var)) (Path (dMeta ex_var))"
    and key: "KeyID ex_stored \<noteq> ''''"
    and dec: "Decrypt (ex_env acl_reader) (Data ex_stored) (KeyID ex_stored) = Inr [1]"
    and um: "Unmarshal (ex_env acl_reader) [1] = Inr ex_items"
    by (simp_all add: hasReadPermission_def acl_reader_def ex_stored_def ex_env_def)
  from conflict_redaction [OF a b c d, of acl_writer "ex_env acl_writer"] no
  have r1: "\<exists>out. makeVariablesApplyResponse (ex_env acl_writer) (ex_request VarOpCAS ex_var)
             (Some (ex_conflict ex_stored)) acl_writer = (Some out, None) \<and>
          Conflict out = Some \<lparr>dMeta = eMeta ex_stored, Items = None\<rparr> \<and>
          Result out = VarOpResultRedacted"
    by blast
  from conflict_redaction [OF a b c d, of acl_reader "ex_env acl_reader"] rd key dec um
  have r2: "\<exists>out. makeVariablesApplyResponse (ex_env acl_reader) (ex_request VarOpCAS ex_var)
             (Some (ex_conflict ex_stored)) acl_reader = (Some out, None) \<and>
          Conflict out = Some \<lparr>dMeta = eMeta ex_stored, Items = ex_items\<rparr> \<and>
          Result out = eResult (ex_conflict ex_stored)"
    by blast
  show ?thesis
    using a b c d no rd key dec um r1 r2 by blast
qed

text \<open>
  The claim as it was stated fails for a reader at a conflicting record without a key: the
  caller holds the read capability and the record's payload decrypts to the items
  \<open>k = v\<close>, yet the conflict of the reply carries no items, and of the metadata only
  namespace and path.
\<close>

theorem conflict_keyless_counterexample:
  "\<not> IsOk (ex_conflict ex_keyless) \<and> \<not> IsError (ex_conflict ex_keyless) \<and>
   hasReadPermission acl_reader (Namespace (dMeta ex_var)) (Path (dMeta ex_var)) \<and>
   decrypt (ex_env acl_reader) ex_keyless = Inr \<lparr>dMeta = ex_meta, Items = ex_items\<rparr> \<and>
   ex_items \<noteq> None \<and>
   makeVariablesApplyResponse (ex_env acl_reader) (ex_request VarOpCAS ex_var)
       (Some (ex_conflict ex_keyless)) acl_reader =
     (Some \<lparr>rOp = VarOpCAS, Input = Some ex_var, Result = VarOpResultConflict, Error = None,
            Conflict = Some \<lparr>dMeta = zeroVariableMetadata
                                       \<lparr>Namespace := ''default'', Path := ''a/b''\<rparr>,
                              Items = None\<rparr>,
            Output = None, rWriteMeta = \<lparr>Index = 8\<rparr>\<rparr>,
      None)"
  by (simp add: makeVariablesApplyResponse_def hasReadPermission_def decrypt_def IsOk_def
        IsError_def zeroVariableDecrypted_def ex_conflict_def ex_keyless_def ex_request_def
        ex_var_def ex_meta_def ex_items_def ex_env_def acl_reader_def Let_def)




section \<open>The reply to a write that succeeded\<close>

text \<open>
  What \<open>makeVariablesApplyResponse\<close> returns for a success of the state machine: no
  error, no conflict, and for written metadata an output that pairs it with a copy of the
  items of the request, its lock kept for the holder and for a management caller.
\<close>

lemma response_output:
  assumes "IsOk eResp" and "Var req = Some v"
  shows
    "makeVariablesApplyResponse env req (Some eResp) aclObj =
       (Some \<lparr>rOp = eOp eResp, Input = Some v, Result = eResult eResp, Error = eError eResp,
              Conflict = None,
              Output =
                (case WrittenSVMeta eResp of
                   None \<Rightarrow> None
                 | Some written \<Rightarrow>
                     Some \<lparr>dMeta =
                             (if (\<exists>rl sl. Lock (dMeta v) = Some rl \<and> Lock written = Some sl \<and>
                                    ID rl = ID sl) \<or> IsManagement aclObj
                              then written else written\<lparr>Lock := None\<rparr>),
                           Items = VariableItems_Copy (Items v)\<rparr>),
              rWriteMeta = eWriteMeta eResp\<rparr>,
        None)"
  using assms
  by (auto simp: makeVariablesApplyResponse_def isCallerOwner_def Let_def split: option.split)

text \<open>
  Claim C4, as the code has it. Take an \<open>Apply\<close> that this server handles and that returns
  a reply. It submitted one record, and the state machine answered it. The variable \<open>v'\<close>
  that \<open>Apply\<close> holds when it builds the reply is the caller's variable in the target
  namespace as \<open>canonicalizeAndValidate\<close> leaves it: canonical for a set and a CAS, and
  for a lock acquire canonical after a missing lock block was filled in with an empty one;
  its items are the caller's when \<open>Canonicalize\<close> keeps items. When the answer is a
  success there is no conflict, and for written metadata the \<open>Output\<close> is that metadata
  with a copy of the items of \<open>v'\<close>; its \<open>Lock\<close> is kept when \<open>v'\<close> carries a lock
  whose ID is the ID of the written lock, or when the caller is a management caller, and is
  nil otherwise. The lock ID that counts is the one of \<open>v'\<close>, not the one the caller sent.
\<close>

theorem Apply_output:
  assumes "forwardApply env = None" and "Apply env args srv = (Inr reply, srv')"
  shows
    "\<exists>v aclObj v' request out index.
       Var args = Some v \<and> ResolveACL env = Inr aclObj \<and>
       v' = (if Op args = VarOpLockAcquire
             then Canonicalize env (withLockBlock (inNamespace v (targetNS env v)))
             else if Op args = VarOpSet \<or> Op args = VarOpCAS
             then Canonicalize env (inNamespace v (targetNS env v))
             else inNamespace v (targetNS env v)) \<and>
       (keepsItems (Canonicalize env) \<longrightarrow> Items v' = Items v) \<and>
       raft_log srv' = raft_log srv @ [request] \<and>
       fst (raftApply env request (State srv)) = Inr (Some out, index) \<and>
       (IsOk out \<longrightarrow>
          Conflict reply = None \<and> Result reply = eResult out \<and>
          (\<forall>written. WrittenSVMeta out = Some written \<longrightarrow>
             Output reply =
               Some \<lparr>dMeta =
                       (if (\<exists>rl sl. Lock (dMeta v') = Some rl \<and> Lock written = Some sl \<and>
                              ID rl = ID sl) \<or> IsManagement aclObj
                        then written else written\<lparr>Lock := None\<rparr>),
                     Items = VariableItems_Copy (Items v')\<rparr>))"
proof (rule Apply_replied [OF assms])
  fix v aclObj args' v' ev out index r
  assume va: "Var args = Some v" and ac: "ResolveACL env = Inr aclObj"
    and v': "Var args' = Some v'"
    and veq: "v' = (if Op args = VarOpLockAcquire
               then Canonicalize env (withLockBlock (inNamespace v (targetNS env v)))
               else if Op args = VarOpSet \<or> Op args = VarOpCAS
               then Canonicalize env (inNamespace v (targetNS env v))
               else inNamespace v (targetNS env v))"
    and lg: "raft_log srv' = raft_log srv @ [sveArgs args' (Some ev)]"
    and ans: "fst (raftApply env (sveArgs args' (Some ev)) (State srv)) = Inr (Some out, index)"
    and mk: "makeVariablesApplyResponse env args' (Some out) aclObj = (Some r, None)"
    and rp: "reply = r\<lparr>rWriteMeta := (rWriteMeta r)\<lparr>Index := index\<rparr>\<rparr>"
  have items: "Items v' = Items v" if "keepsItems (Canonicalize env)"
    using that veq by (simp add: keepsItems_def)
  have ok: "Conflict reply = None \<and> Result reply = eResult out \<and>
          (\<forall>written. WrittenSVMeta out = Some written \<longrightarrow>
             Output reply =
               Some \<lparr>dMeta =
                       (if (\<exists>rl sl. Lock (dMeta v') = Some rl \<and> Lock written = Some sl \<and>
                              ID rl = ID sl) \<or> IsManagement aclObj
                        then written else written\<lparr>Lock := None\<rparr>),
                     Items = VariableItems_Copy (Items v')\<rparr>)"
    if "IsOk out"
    using mk rp unfolding response_output [OF that v'] by auto
  from va ac veq items lg ans ok show ?thesis by blast
qed

theorem Apply_output_witness:
  "forwardApply (ex_env_canonical acl_writer) = None \<and>
   Apply (ex_env_canonical acl_writer) (ex_request VarOpSet ex_var) (ex_server ex_empty_store) =
     (Inr \<lparr>rOp = VarOpSet, Input = Some ex_var, Result = VarOpResultOk, Error = None,
           Conflict = None,
           Output = Some \<lparr>dMeta = ex_meta\<lparr>ModifyIndex := 8, CreateTime := 1000,
                                            ModifyTime := 1000\<rparr>,
                          Items = ex_items\<rparr>,
           rWriteMeta = \<lparr>Index = 8\<rparr>\<rparr>,
      snd (Apply (ex_env_canonical acl_writer) (ex_request VarOpSet ex_var)
             (ex_server ex_empty_store))) \<and>
   keepsItems (Canonicalize (ex_env_canonical acl_writer)) \<and>
   (\<exists>v aclObj v' request out index.
       Var (ex_request VarOpSet ex_var) = Some v \<and>
       ResolveACL (ex_env_canonical acl_writer) = Inr aclObj \<and>
       Items (v'::VariableDecrypted) = Items v \<and>
       raft_log (snd (Apply (ex_env_canonical acl_writer) (ex_request VarOpSet ex_var)
                        (ex_server ex_empty_store))) =
         raft_log (ex_server ex_empty_store) @ [request] \<and>
       fst (raftApply (ex_env_canonical acl_writer) request
              (State (ex_server ex_empty_store))) = Inr (Some out, index))"
proof -
  let ?env = "ex_env_canonical acl_writer" and ?args = "ex_request VarOpSet ex_var"
    and ?srv = "ex_server ex_empty_store"
  let ?reply = "\<lparr>rOp = VarOpSet, Input = Some ex_var, Result = VarOpResultOk, Error = None,
           Conflict = None,
           Output = Some \<lparr>dMeta = ex_meta\<lparr>ModifyIndex := 8, CreateTime := 1000,
                                            ModifyTime := 1000\<rparr>,
                          Items = ex_items\<rparr>,
           rWriteMeta = \<lparr>Index = 8\<rparr>\<rparr>"
  have fw: "forwardApply ?env = None" by (simp add: ex_env_canonical_def ex_env_def)
  have "fst (Apply ?env ?args ?srv) = Inr ?reply"
    by (simp add: Apply_defs ex_defs capability_defs)
  then have run: "Apply ?env ?args ?srv = (Inr ?reply, snd (Apply ?env ?args ?srv))"
    by (simp add: prod_eq_iff)
  have keeps: "keepsItems (Canonicalize ?env)"
    using ex_Canonicalize_keeps by (simp add: ex_env_canonical_def)
  from Apply_output [OF fw run] obtain v aclObj v' request out index where
    a: "Var ?args = Some v" and b: "ResolveACL ?env = Inr aclObj"
    and c: "keepsItems (Canonicalize ?env) \<longrightarrow> Items (v'::VariableDecrypted) = Items v"
    and d: "raft_log (snd (Apply ?env ?args ?srv)) = raft_log ?srv @ [request]"
    and e: "fst (raftApply ?env request (State ?srv)) = Inr (Some out, index)"
    by blast
  from c keeps have i: "Items v' = Items v" by (rule mp)
  have "\<exists>v aclObj v' request out index.
       Var ?args = Some v \<and> ResolveACL ?env = Inr aclObj \<and>
       Items (v'::VariableDecrypted) = Items v \<and>
       raft_log (snd (Apply ?env ?args ?srv)) = raft_log ?srv @ [request] \<and>
       fst (raftApply ?env request (State ?srv)) = Inr (Some out, index)"
    by (intro exI [of _ v] exI [of _ aclObj] exI [of _ v'] exI [of _ request]
          exI [of _ out] exI [of _ index] conjI) (rule a b i d e)+
  with fw run keeps show ?thesis by (intro conjI)
qed

text \<open>
  The claim as it was stated fails at a lock acquire of a caller who sends no lock block and
  is no management caller: \<open>canonicalizeAndValidate\<close> fills in the lock block and
  canonicalizes it, the state machine stores the lock, and the \<open>Output\<close> of the reply
  carries the lock with its ID, as it must for the caller to renew and release it.
\<close>

theorem Apply_output_counterexample:
  "Lock (dMeta ex_var) = None \<and> \<not> IsManagement acl_writer \<and>
   fst (Apply (ex_env_canonical acl_writer) (ex_request VarOpLockAcquire ex_var)
          (ex_server ex_empty_store)) =
     Inr \<lparr>rOp = VarOpLockAcquire,
          Input = Some \<lparr>dMeta = ex_meta\<lparr>Lock := Some \<lparr>ID = ''generated-id'', TTL = 15,
                                                         LockDelay = 5\<rparr>\<rparr>,
                         Items = ex_items\<rparr>,
          Result = VarOpResultOk, Error = None, Conflict = None,
          Output = Some \<lparr>dMeta = ex_meta\<lparr>ModifyIndex := 8, CreateTime := 1000,
                                           ModifyTime := 1000,
                                           Lock := Some \<lparr>ID = ''generated-id'', TTL = 15,
                                                          LockDelay = 5\<rparr>\<rparr>,
                         Items = ex_items\<rparr>,
          rWriteMeta = \<lparr>Index = 8\<rparr>\<rparr>"
  by (simp add: Apply_defs ex_defs capability_defs)

section \<open>Validation of a lock release\<close>

text \<open>
  The lock release branch of \<open>canonicalizeAndValidate\<close>, for a request that carries a
  variable: missing lock information first, then the items, then the path.
\<close>

lemma canonicalizeAndValidate_LockRelease:
  assumes "Op args = VarOpLockRelease" "Var args = Some v"
  shows "canonicalizeAndValidate env args =
     ((case Lock (dMeta v) of
         None \<Rightarrow> Some errMissingLockInfo
       | Some l \<Rightarrow>
           if ID l = '''' then Some errMissingLockInfo
           else if Items v \<noteq> None then Some errItemsOnRelease
           else ValidatePath env (Path (dMeta v))),
      args)"
  using assms by (simp add: canonicalizeAndValidate_def len_def split: option.split)

text \<open>
  Claim C5. A lock release is to be rejected for its items only when it has items: a release
  with an empty items map and a lock ID is to pass. The code
  tests \<open>Items != nil || len(Items) != 0\<close>, which is \<open>Items != nil\<close>: the release
  \<open>ex_release_empty\<close>, whose lock ID is \<open>lock-1\<close> and whose items are an allocated map
  of length 0, is rejected with \<open>errItemsOnRelease\<close>, while the same release with nil
  items goes on to the validation of its path.
\<close>

theorem LockRelease_rejects_allocated_empty_items:
  "canonicalizeAndValidate env ex_release_empty = (Some errItemsOnRelease, ex_release_empty) \<and>
   (\<exists>v l. Var ex_release_empty = Some v \<and> Lock (dMeta v) = Some l \<and> ID l \<noteq> '''' \<and>
          len (Items v) = 0) \<and>
   canonicalizeAndValidate env ex_release_nil =
     (ValidatePath env ''a/b'', ex_release_nil)"
  by (simp add: canonicalizeAndValidate_def len_def ex_release_empty_def ex_release_nil_def
        ex_request_def ex_meta_def ex_lock_def)

theorem LockRelease_rejects_allocated_empty_items_witness:
  "canonicalizeAndValidate (ex_env acl_writer) ex_release_empty =
     (Some errItemsOnRelease, ex_release_empty) \<and>
   canonicalizeAndValidate (ex_env acl_writer) ex_release_nil = (None, ex_release_nil)"
  using LockRelease_rejects_allocated_empty_items [of "ex_env acl_writer"]
  by (simp add: ex_env_def)

section \<open>Validation of a set and of a CAS\<close>

text \<open>
  Claim C6. For a set or a CAS, \<open>canonicalizeAndValidate\<close> rejects a variable whose lock
  block has a nonzero TTL or a nonzero lock delay with a bad-request (400) error that wraps
  \<open>errLockOnVarCreation\<close>; the rejection reads nothing but the request, so it holds
  whether or not the variable exists already. With no lock block, or with one whose TTL and
  lock delay are both zero, the outcome is that of \<open>Validate\<close> on the canonical variable:
  the lock fields reject nothing.
\<close>

theorem SetCAS_lock_fields:
  assumes "Op args = VarOpSet \<or> Op args = VarOpCAS" and "Var args = Some v"
  shows
    "(\<forall>l. Lock (dMeta v) = Some l \<and> (TTL l \<noteq> 0 \<or> LockDelay l \<noteq> 0) \<longrightarrow>
        canonicalizeAndValidate env args =
          (Some (ErrRPCCoded StatusBadRequest (ErrorOf errLockOnVarCreation)), args)) \<and>
     (Lock (dMeta v) = None \<or>
      (\<exists>l. Lock (dMeta v) = Some l \<and> TTL l = 0 \<and> LockDelay l = 0) \<longrightarrow>
        canonicalizeAndValidate env args =
          (map_option (\<lambda>err. ErrRPCCoded StatusBadRequest (ErrorOf err))
             (Validate env (Canonicalize env v)),
           args\<lparr>Var := Some (Canonicalize env v)\<rparr>))"
  using assms
  by (auto simp: canonicalizeAndValidate_def Let_def split: option.split)

theorem SetCAS_lock_fields_witness:
  "Op (ex_request VarOpSet (ex_var\<lparr>dMeta := ex_meta\<lparr>Lock := Some ex_lock\<rparr>\<rparr>)) = VarOpSet \<and>
   Var (ex_request VarOpSet (ex_var\<lparr>dMeta := ex_meta\<lparr>Lock := Some ex_lock\<rparr>\<rparr>)) =
     Some (ex_var\<lparr>dMeta := ex_meta\<lparr>Lock := Some ex_lock\<rparr>\<rparr>) \<and>
   TTL ex_lock \<noteq> 0 \<and>
   canonicalizeAndValidate (ex_env acl_writer)
       (ex_request VarOpSet (ex_var\<lparr>dMeta := ex_meta\<lparr>Lock := Some ex_lock\<rparr>\<rparr>)) =
     (Some (ErrRPCCoded StatusBadRequest (ErrorOf errLockOnVarCreation)),
      ex_request VarOpSet (ex_var\<lparr>dMeta := ex_meta\<lparr>Lock := Some ex_lock\<rparr>\<rparr>)) \<and>
   Op (ex_request VarOpCAS ex_var) = VarOpCAS \<and>
   Var (ex_request VarOpCAS ex_var) = Some ex_var \<and>
   Lock (dMeta ex_var) = None \<and>
   canonicalizeAndValidate (ex_env acl_writer) (ex_request VarOpCAS ex_var) =
     (None, ex_request VarOpCAS ex_var)"
proof -
  let ?locked = "ex_var\<lparr>dMeta := ex_meta\<lparr>Lock := Some ex_lock\<rparr>\<rparr>"
  have a: "Op (ex_request VarOpSet ?locked) = VarOpSet \<or> Op (ex_request VarOpSet ?locked) = VarOpCAS"
    and b: "Var (ex_request VarOpSet ?locked) = Some ?locked"
    and c: "Lock (dMeta ?locked) = Some ex_lock" and d: "TTL ex_lock \<noteq> 0"
    by (simp_all add: ex_request_def ex_lock_def)
  have a': "Op (ex_request VarOpCAS ex_var) = VarOpSet \<or> Op (ex_request VarOpCAS ex_var) = VarOpCAS"
    and b': "Var (ex_request VarOpCAS ex_var) = Some ex_var"
    and c': "Lock (dMeta ex_var) = None"
    by (simp_all add: ex_request_def ex_var_def ex_meta_def)
  from SetCAS_lock_fields [OF a b, of "ex_env acl_writer"] c d
  have r1: "canonicalizeAndValidate (ex_env acl_writer) (ex_request VarOpSet ?locked) =
     (Some (ErrRPCCoded StatusBadRequest (ErrorOf errLockOnVarCreation)),
      ex_request VarOpSet ?locked)"
    by blast
  from SetCAS_lock_fields [OF a' b', of "ex_env acl_writer"] c'
  have r2: "canonicalizeAndValidate (ex_env acl_writer) (ex_request VarOpCAS ex_var) =
     (None, ex_request VarOpCAS ex_var)"
    by (simp add: ex_env_def ex_request_def)
  show ?thesis
    using r1 r2 b b' c' d by (simp add: ex_request_def)
qed

section \<open>Read\<close>



section \<open>RenewLock\<close>

text \<open>
  Claim C8. For a renewal that is handled here, authenticated, allowed to write, valid, and
  whose variable exists in the state store and holds a lock: a lock ID that differs from
  the stored one is answered with \<open>errVarIsLocked\<close>; the stored lock ID with a timer that
  refuses the renewal (the lock expired) is answered with the same \<open>errVarIsLocked\<close>; the
  stored lock ID with a timer that renews is answered with the stored metadata and its
  \<open>ModifyIndex\<close>. Only a renewal with the stored lock ID reaches the timers.
\<close>

theorem RenewLock_reply:
  assumes "forwardRenewLock env = None" and "Authenticate env = None"
    and "ResolveACL env = Inr aclObj"
    and "AllowVariableOperation aclObj (wNamespace (rnWriteRequest args)) (rnPath args)
           VariablesCapabilityWrite None"
    and "RenewLockRequest_Validate env = None" and "Snapshot env = None"
    and "GetVariable env = None"
    and "variables (State srv) (wNamespace (rnWriteRequest args), rnPath args) = Some ev"
    and "Lock (eMeta ev) = Some l"
  shows
    "(ID l \<noteq> LockID args \<longrightarrow> RenewLock env args srv = (Inl errVarIsLocked, srv)) \<and>
     (ID l = LockID args \<and> timers_RenewTTLTimer env ev \<noteq> None \<longrightarrow>
        RenewLock env args srv =
          (Inl errVarIsLocked, srv\<lparr>timers := timers srv @ [RenewTTLTimer ev]\<rparr>)) \<and>
     (ID l = LockID args \<and> timers_RenewTTLTimer env ev = None \<longrightarrow>
        RenewLock env args srv =
          (Inr \<lparr>VarMeta = Some (eMeta ev), rnIndex = ModifyIndex (eMeta ev)\<rparr>,
           srv\<lparr>timers := timers srv @ [RenewTTLTimer ev]\<rparr>))"
  using assms
  by (auto simp: RenewLock_def VariableEncrypted_Copy_def Let_def)

theorem RenewLock_reply_witness:
  "forwardRenewLock ex_env_expired = None \<and> Authenticate ex_env_expired = None \<and>
   ResolveACL ex_env_expired = Inr acl_writer \<and>
   AllowVariableOperation acl_writer (wNamespace (rnWriteRequest (ex_renew ''lock-1'')))
     (rnPath (ex_renew ''lock-1'')) VariablesCapabilityWrite None \<and>
   RenewLockRequest_Validate ex_env_expired = None \<and> Snapshot ex_env_expired = None \<and>
   GetVariable ex_env_expired = None \<and>
   variables (State (ex_server (ex_store ex_locked)))
     (wNamespace (rnWriteRequest (ex_renew ''lock-1'')), rnPath (ex_renew ''lock-1'')) =
     Some ex_locked \<and>
   Lock (eMeta ex_locked) = Some ex_lock \<and>
   ID ex_lock \<noteq> LockID (ex_renew ''lock-2'') \<and>
   fst (RenewLock ex_env_expired (ex_renew ''lock-2'') (ex_server (ex_store ex_locked))) =
     Inl errVarIsLocked \<and>
   ID ex_lock = LockID (ex_renew ''lock-1'') \<and>
   timers_RenewTTLTimer ex_env_expired ex_locked \<noteq> None \<and>
   fst (RenewLock ex_env_expired (ex_renew ''lock-1'') (ex_server (ex_store ex_locked))) =
     Inl errVarIsLocked \<and>
   timers_RenewTTLTimer (ex_env acl_writer) ex_locked = None \<and>
   fst (RenewLock (ex_env acl_writer) (ex_renew ''lock-1'') (ex_server (ex_store ex_locked))) =
     Inr \<lparr>VarMeta = Some (ex_meta\<lparr>Lock := Some ex_lock\<rparr>), rnIndex = 2\<rparr>"
proof -
  let ?srv = "ex_server (ex_store ex_locked)"
  note defs = ex_env_expired_def ex_env_def acl_writer_def ex_renew_def ex_write_def
    ex_server_def ex_store_def ex_locked_def ex_lock_def ex_meta_def capability_defs
  have r1: "fst (RenewLock ex_env_expired (ex_renew ''lock-2'') ?srv) = Inl errVarIsLocked"
    using RenewLock_reply [where env = ex_env_expired and aclObj = acl_writer
        and args = "ex_renew ''lock-2''" and srv = ?srv and ev = ex_locked and l = ex_lock]
    by (simp add: defs)
  have r2: "fst (RenewLock ex_env_expired (ex_renew ''lock-1'') ?srv) = Inl errVarIsLocked"
    using RenewLock_reply [where env = ex_env_expired and aclObj = acl_writer
        and args = "ex_renew ''lock-1''" and srv = ?srv and ev = ex_locked and l = ex_lock]
    by (simp add: defs)
  have r3: "fst (RenewLock (ex_env acl_writer) (ex_renew ''lock-1'') ?srv) =
     Inr \<lparr>VarMeta = Some (ex_meta\<lparr>Lock := Some ex_lock\<rparr>), rnIndex = 2\<rparr>"
    using RenewLock_reply [where env = "ex_env acl_writer" and aclObj = acl_writer
        and args = "ex_renew ''lock-1''" and srv = ?srv and ev = ex_locked and l = ex_lock]
    by (simp add: defs)
  show ?thesis
    using r1 r2 r3 by (simp add: defs)
qed

section \<open>The lock timers after Apply\<close>



section \<open>The namespace of a write\<close>

text \<open>
  Claim C10. Take a request that \<open>Apply\<close> handles up to the resolution of the ACL, and
  let the target namespace be the variable's namespace, or the request's namespace when the
  variable's is empty. A variable with a namespace keeps it, whatever the request's
  namespace is. The permission check is made on the target namespace: when it refuses,
  \<open>Apply\<close> returns its error and leaves the server as it was. \<open>Apply\<close> on the request
  is \<open>Apply\<close> on the request with the target namespace written into the variable, so
  validation and submission see the defaulted variable. Whenever a record reaches the raft
  log, the permission check on the target namespace passed, the defaulted variable passed
  validation, and the namespace of the record is the target namespace for a delete, a
  delete-CAS and a lock release, and the namespace of the canonical form of the defaulted
  variable for a set, a CAS and a lock acquire. With a \<open>Canonicalize\<close> that keeps a
  namespace that is not empty, and a target namespace that is not empty, the record that
  reaches the raft log carries the target namespace, whatever the operation: the stored
  record uses the defaulted namespace.
\<close>

theorem Apply_namespace:
  assumes "forwardApply env = None" and "Authenticate env = None" and "Var args = Some v"
    and "ServersMeetMinimumVersion env" and "ResolveACL env = Inr aclObj"
  shows
    "(Namespace (dMeta v) = '''' \<longrightarrow> targetNS env v = RequestNamespace env) \<and>
     (Namespace (dMeta v) \<noteq> '''' \<longrightarrow>
        targetNS env v = Namespace (dMeta v) \<and> inNamespace v (targetNS env v) = v) \<and>
     (\<forall>err. hasOperationPermissions aclObj (targetNS env v) (Path (dMeta v)) (Op args) =
              Some err \<longrightarrow> Apply env args srv = (Inl err, srv)) \<and>
     Apply env args srv =
       Apply env (args\<lparr>Var := Some (inNamespace v (targetNS env v))\<rparr>) srv \<and>
     (\<forall>record. raft_log (snd (Apply env args srv)) = raft_log srv @ [record] \<longrightarrow>
        hasOperationPermissions aclObj (targetNS env v) (Path (dMeta v)) (Op args) = None \<and>
        (\<exists>args'. canonicalizeAndValidate env
                   (args\<lparr>Var := Some (inNamespace v (targetNS env v))\<rparr>) = (None, args')) \<and>
        (\<exists>ev. sVar record = Some ev \<and>
           Namespace (eMeta ev) =
             (if Op args = VarOpLockAcquire
              then Namespace (dMeta (Canonicalize env
                     (withLockBlock (inNamespace v (targetNS env v)))))
              else if Op args = VarOpSet \<or> Op args = VarOpCAS
              then Namespace (dMeta (Canonicalize env (inNamespace v (targetNS env v))))
              else targetNS env v))) \<and>
     (keepsNamespace (Canonicalize env) \<and> targetNS env v \<noteq> '''' \<longrightarrow>
        (\<forall>record. raft_log (snd (Apply env args srv)) = raft_log srv @ [record] \<longrightarrow>
           (\<exists>ev. sVar record = Some ev \<and> Namespace (eMeta ev) = targetNS env v)))"
proof -
  let ?ns = "targetNS env v"
  let ?v = "inNamespace v ?ns"
  let ?args = "args\<lparr>Var := Some ?v\<rparr>"
  have c1: "Namespace (dMeta v) = '''' \<longrightarrow> ?ns = RequestNamespace env"
    and c2: "Namespace (dMeta v) \<noteq> '''' \<longrightarrow> ?ns = Namespace (dMeta v) \<and> ?v = v"
    by (simp_all add: targetNS_def inNamespace_def)
  note res = Apply_resolved [OF assms, of srv]
  have acl: "Apply env args srv = (Inl err, srv)"
    if "hasOperationPermissions aclObj ?ns (Path (dMeta v)) (Op args) = Some err" for err
    using that by (simp add: res)
  have "Var ?args = Some ?v" by simp
  note res' = Apply_resolved [OF assms(1,2) this assms(4,5), of srv]
  have same: "Apply env args srv = Apply env ?args srv"
    unfolding res res' by (simp cong: option.case_cong)
  have sub: "hasOperationPermissions aclObj ?ns (Path (dMeta v)) (Op args) = None \<and>
        (\<exists>args'. canonicalizeAndValidate env ?args = (None, args')) \<and>
        (\<exists>ev. sVar record = Some ev \<and>
           Namespace (eMeta ev) =
             (if Op args = VarOpLockAcquire
              then Namespace (dMeta (Canonicalize env (withLockBlock ?v)))
              else if Op args = VarOpSet \<or> Op args = VarOpCAS
              then Namespace (dMeta (Canonicalize env ?v))
              else ?ns))"
    if log: "raft_log (snd (Apply env args srv)) = raft_log srv @ [record]" for "record"
  proof (rule Apply_cases [OF assms(1), of args srv])
    fix e assume "Apply env args srv = (Inl e, srv)"
    with log show ?thesis by simp
  next
    fix v0 aclObj0 args' v' ev
    assume v0: "Var args = Some v0" and a0: "ResolveACL env = Inr aclObj0"
      and pm: "hasOperationPermissions aclObj0 (targetNS env v0) (Path (dMeta v0)) (Op args) = None"
      and cv: "canonicalizeAndValidate env
                 (args\<lparr>Var := Some (inNamespace v0 (targetNS env v0))\<rparr>) = (None, args')"
      and v': "Var args' = Some v'"
      and ev: "((Op args = VarOpSet \<or> Op args = VarOpCAS \<or> Op args = VarOpLockAcquire \<or>
         Op args = VarOpLockRelease) \<and>
        (\<exists>e0. encrypt env v' = Inr e0 \<and> ev = stamped env e0)) \<or>
       ((Op args = VarOpDelete \<or> Op args = VarOpDeleteCAS) \<and> ev = deleteRecord v')"
      and upd: "Apply env args srv = Apply_update env args' aclObj0 (Some ev) srv"
    from v0 a0 assms have [simp]: "v0 = v" "aclObj0 = aclObj" by simp_all
    obtain r s where "Apply_update env args' aclObj (Some ev) srv = (r, s)"
      by (cases "Apply_update env args' aclObj (Some ev) srv")
    from Apply_update_outcome [OF this] this upd log
    have rec: "record = sveArgs args' (Some ev)" by simp
    have nsev: "Namespace (eMeta ev) = Namespace (dMeta v')"
      using ev by (auto simp: stamped_def deleteRecord_def zeroVariableMetadata_def
          dest: encrypt_eMeta)
    have "Var args' =
      Some (if Op ?args = VarOpLockAcquire then Canonicalize env (withLockBlock ?v)
           else if Op ?args = VarOpSet \<or> Op ?args = VarOpCAS then Canonicalize env ?v
           else ?v)"
      using cv by (intro canonicalizeAndValidate_validated) simp_all
    with v' have "v' = (if Op args = VarOpLockAcquire then Canonicalize env (withLockBlock ?v)
           else if Op args = VarOpSet \<or> Op args = VarOpCAS then Canonicalize env ?v
           else ?v)" by (auto split: if_splits)
    with nsev rec pm cv show ?thesis
      by (auto simp: sveArgs_def inNamespace_def)
  qed
  have stored: "\<exists>ev. sVar record = Some ev \<and> Namespace (eMeta ev) = ?ns"
    if keeps: "keepsNamespace (Canonicalize env)" and ne: "?ns \<noteq> ''''"
      and log: "raft_log (snd (Apply env args srv)) = raft_log srv @ [record]" for "record"
  proof -
    from sub [OF log] obtain ev where ev: "sVar record = Some ev"
      and nsev: "Namespace (eMeta ev) =
             (if Op args = VarOpLockAcquire
              then Namespace (dMeta (Canonicalize env (withLockBlock ?v)))
              else if Op args = VarOpSet \<or> Op args = VarOpCAS
              then Namespace (dMeta (Canonicalize env ?v))
              else ?ns)"
      by blast
    from keeps ne have "Namespace (dMeta (Canonicalize env (withLockBlock ?v))) = ?ns"
      "Namespace (dMeta (Canonicalize env ?v)) = ?ns"
      by (simp_all add: keepsNamespace_def)
    with nsev have "Namespace (eMeta ev) = ?ns" by simp
    with ev show ?thesis by blast
  qed
  have all: "keepsNamespace (Canonicalize env) \<and> ?ns \<noteq> '''' \<longrightarrow>
        (\<forall>record. raft_log (snd (Apply env args srv)) = raft_log srv @ [record] \<longrightarrow>
           (\<exists>ev. sVar record = Some ev \<and> Namespace (eMeta ev) = ?ns))"
    using stored by blast
  have c3: "\<forall>err. hasOperationPermissions aclObj ?ns (Path (dMeta v)) (Op args) =
              Some err \<longrightarrow> Apply env args srv = (Inl err, srv)"
    using acl by blast
  have c5: "\<forall>record. raft_log (snd (Apply env args srv)) = raft_log srv @ [record] \<longrightarrow>
        hasOperationPermissions aclObj ?ns (Path (dMeta v)) (Op args) = None \<and>
        (\<exists>args'. canonicalizeAndValidate env ?args = (None, args')) \<and>
        (\<exists>ev. sVar record = Some ev \<and>
           Namespace (eMeta ev) =
             (if Op args = VarOpLockAcquire
              then Namespace (dMeta (Canonicalize env (withLockBlock ?v)))
              else if Op args = VarOpSet \<or> Op args = VarOpCAS
              then Namespace (dMeta (Canonicalize env ?v))
              else ?ns))"
    using sub by blast
  from c1 c2 c3 same c5 all show ?thesis by (intro conjI)
qed

theorem Apply_namespace_witness:
  "forwardApply (ex_env_canonical acl_writer) = None \<and>
   Authenticate (ex_env_canonical acl_writer) = None \<and>
   Var (ex_request VarOpSet ex_blank) = Some ex_blank \<and>
   Var (ex_request VarOpLockAcquire ex_blank) = Some ex_blank \<and>
   Var (ex_request VarOpDelete ex_blank) = Some ex_blank \<and>
   Var (ex_request VarOpDelete ex_prod) = Some ex_prod \<and>
   ServersMeetMinimumVersion (ex_env_canonical acl_writer) \<and>
   ResolveACL (ex_env_canonical acl_writer) = Inr acl_writer \<and>
   Namespace (dMeta ex_blank) = '''' \<and>
   keepsNamespace (Canonicalize (ex_env_canonical acl_writer)) \<and>
   targetNS (ex_env_canonical acl_writer) ex_blank = ''default'' \<and>
   raft_log (snd (Apply (ex_env_canonical acl_writer) (ex_request VarOpSet ex_blank)
                    (ex_server ex_empty_store))) =
     raft_log (ex_server ex_empty_store) @
       [\<lparr>sOp = VarOpSet,
         sVar = Some \<lparr>eMeta = ex_meta\<lparr>CreateTime := 1000, ModifyTime := 1000\<rparr>,
                       Data = [1], KeyID = ''key-1''\<rparr>,
         sWriteRequest = ex_write\<rparr>] \<and>
   (\<exists>ev. sVar \<lparr>sOp = VarOpSet,
               sVar = Some \<lparr>eMeta = ex_meta\<lparr>CreateTime := 1000, ModifyTime := 1000\<rparr>,
                             Data = [1], KeyID = ''key-1''\<rparr>,
               sWriteRequest = ex_write\<rparr> = Some ev \<and>
         Namespace (eMeta ev) = ''default'') \<and>
   raft_log (snd (Apply (ex_env_canonical acl_writer) (ex_request VarOpLockAcquire ex_blank)
                    (ex_server ex_empty_store))) =
     raft_log (ex_server ex_empty_store) @
       [\<lparr>sOp = VarOpLockAcquire,
         sVar = Some \<lparr>eMeta = ex_meta
                         \<lparr>CreateTime := 1000, ModifyTime := 1000,
                          Lock := Some \<lparr>ID = ''generated-id'', TTL = 15, LockDelay = 5\<rparr>\<rparr>,
                       Data = [1], KeyID = ''key-1''\<rparr>,
         sWriteRequest = ex_write\<rparr>] \<and>
   (\<exists>ev. sVar \<lparr>sOp = VarOpLockAcquire,
               sVar = Some \<lparr>eMeta = ex_meta
                         \<lparr>CreateTime := 1000, ModifyTime := 1000,
                          Lock := Some \<lparr>ID = ''generated-id'', TTL = 15, LockDelay = 5\<rparr>\<rparr>,
                             Data = [1], KeyID = ''key-1''\<rparr>,
               sWriteRequest = ex_write\<rparr> = Some ev \<and>
         Namespace (eMeta ev) = ''default'') \<and>
   Apply (ex_env_canonical acl_writer) (ex_request VarOpDelete ex_blank)
       (ex_server ex_empty_store) =
     Apply (ex_env_canonical acl_writer) (ex_request VarOpDelete ex_var)
       (ex_server ex_empty_store) \<and>
   raft_log (snd (Apply (ex_env_canonical acl_writer) (ex_request VarOpDelete ex_blank)
                    (ex_server ex_empty_store))) =
     [\<lparr>sOp = VarOpDelete,
       sVar = Some \<lparr>eMeta = zeroVariableMetadata
                               \<lparr>Namespace := ''default'', Path := ''a/b'', ModifyIndex := 2\<rparr>,
                     Data = [], KeyID = ''''\<rparr>,
       sWriteRequest = ex_write\<rparr>] \<and>
   Namespace (dMeta ex_prod) \<noteq> '''' \<and>
   targetNS (ex_env_canonical acl_writer) ex_prod = ''prod'' \<and>
   inNamespace ex_prod (targetNS (ex_env_canonical acl_writer) ex_prod) = ex_prod"
proof -
  let ?env = "ex_env_canonical acl_writer" and ?srv = "ex_server ex_empty_store"
  let ?set = "\<lparr>sOp = VarOpSet,
               sVar = Some \<lparr>eMeta = ex_meta\<lparr>CreateTime := 1000, ModifyTime := 1000\<rparr>,
                             Data = [1], KeyID = ''key-1''\<rparr>,
               sWriteRequest = ex_write\<rparr>"
  let ?acquire = "\<lparr>sOp = VarOpLockAcquire,
               sVar = Some \<lparr>eMeta = ex_meta
                         \<lparr>CreateTime := 1000, ModifyTime := 1000,
                          Lock := Some \<lparr>ID = ''generated-id'', TTL = 15, LockDelay = 5\<rparr>\<rparr>,
                             Data = [1], KeyID = ''key-1''\<rparr>,
               sWriteRequest = ex_write\<rparr>"
  have pre: "forwardApply ?env = None" "Authenticate ?env = None"
    "Var (ex_request op x) = Some x"
    "ServersMeetMinimumVersion ?env" "ResolveACL ?env = Inr acl_writer" for op x
    by (simp_all add: ex_env_canonical_def ex_env_def ex_request_def)
  have blank: "Namespace (dMeta ex_blank) = ''''" and prod: "Namespace (dMeta ex_prod) \<noteq> ''''"
    by (simp_all add: ex_blank_def ex_prod_def ex_meta_def)
  have var: "inNamespace ex_blank ''default'' = ex_var"
    by (simp add: inNamespace_def ex_blank_def ex_var_def ex_meta_def)
  have rq: "RequestNamespace ?env = ''default''" by (simp add: ex_env_canonical_def ex_env_def)
  have upd: "(ex_request VarOpDelete ex_blank)\<lparr>Var := Some ex_var\<rparr> = ex_request VarOpDelete ex_var"
    by (simp add: ex_request_def)
  have keeps: "keepsNamespace (Canonicalize ?env)"
    using ex_Canonicalize_keeps by (simp add: ex_env_canonical_def)
  note b = Apply_namespace [OF pre(1,2) pre(3) [of VarOpDelete ex_blank] pre(4,5), of ?srv]
  note p = Apply_namespace [OF pre(1,2) pre(3) [of VarOpDelete ex_prod] pre(4,5), of ?srv]
  note s = Apply_namespace [OF pre(1,2) pre(3) [of VarOpSet ex_blank] pre(4,5), of ?srv]
  note a = Apply_namespace [OF pre(1,2) pre(3) [of VarOpLockAcquire ex_blank] pre(4,5), of ?srv]
  from b blank have "targetNS ?env ex_blank = RequestNamespace ?env" by blast
  with rq have ns: "targetNS ?env ex_blank = ''default''" by simp
  then have hyp: "keepsNamespace (Canonicalize ?env) \<and> targetNS ?env ex_blank \<noteq> ''''"
    using keeps by simp
  have logs: "raft_log (snd (Apply ?env (ex_request VarOpSet ex_blank) ?srv)) =
      raft_log ?srv @ [?set]"
    by (simp add: Apply_defs ex_defs capability_defs)
  have loga: "raft_log (snd (Apply ?env (ex_request VarOpLockAcquire ex_blank) ?srv)) =
      raft_log ?srv @ [?acquire]"
    by (simp add: Apply_defs ex_defs capability_defs)
  note s6 = s [THEN conjunct2, THEN conjunct2, THEN conjunct2, THEN conjunct2, THEN conjunct2]
  note a6 = a [THEN conjunct2, THEN conjunct2, THEN conjunct2, THEN conjunct2, THEN conjunct2]
  from s6 [rule_format, OF hyp logs] ns
  have sets: "\<exists>ev. sVar ?set = Some ev \<and> Namespace (eMeta ev) = ''default''"
    by (simp only:)
  from a6 [rule_format, OF hyp loga] ns
  have acqs: "\<exists>ev. sVar ?acquire = Some ev \<and> Namespace (eMeta ev) = ''default''"
    by (simp only:)
  from b have "Apply ?env (ex_request VarOpDelete ex_blank) ?srv =
     Apply ?env ((ex_request VarOpDelete ex_blank)
       \<lparr>Var := Some (inNamespace ex_blank (targetNS ?env ex_blank))\<rparr>) ?srv"
    by blast
  then have same: "Apply ?env (ex_request VarOpDelete ex_blank) ?srv =
     Apply ?env (ex_request VarOpDelete ex_var) ?srv"
    by (simp only: ns var upd)
  have "raft_log (snd (Apply ?env (ex_request VarOpDelete ex_var) ?srv)) =
     [\<lparr>sOp = VarOpDelete,
       sVar = Some \<lparr>eMeta = zeroVariableMetadata
                               \<lparr>Namespace := ''default'', Path := ''a/b'', ModifyIndex := 2\<rparr>,
                     Data = [], KeyID = ''''\<rparr>,
       sWriteRequest = ex_write\<rparr>]"
    by (simp add: Apply_defs ex_defs capability_defs)
  with same
  have logd: "raft_log (snd (Apply ?env (ex_request VarOpDelete ex_blank) ?srv)) =
     [\<lparr>sOp = VarOpDelete,
       sVar = Some \<lparr>eMeta = zeroVariableMetadata
                               \<lparr>Namespace := ''default'', Path := ''a/b'', ModifyIndex := 2\<rparr>,
                     Data = [], KeyID = ''''\<rparr>,
       sWriteRequest = ex_write\<rparr>]"
    by simp
  from p prod have "targetNS ?env ex_prod = Namespace (dMeta ex_prod) \<and>
    inNamespace ex_prod (targetNS ?env ex_prod) = ex_prod"
    by blast
  then have pr: "targetNS ?env ex_prod = Namespace (dMeta ex_prod)"
    "inNamespace ex_prod (targetNS ?env ex_prod) = ex_prod"
    by (rule conjunct1, rule conjunct2)
  have "Namespace (dMeta ex_prod) = ''prod''" by (simp add: ex_prod_def)
  with pr have pr1: "targetNS ?env ex_prod = ''prod''" by simp
  from pre(1,2,4,5) pre(3) [of VarOpSet ex_blank] pre(3) [of VarOpLockAcquire ex_blank]
    pre(3) [of VarOpDelete ex_blank] pre(3) [of VarOpDelete ex_prod]
    blank keeps ns logs sets loga acqs same logd prod pr1 pr(2)
  show ?thesis
    by (intro conjI)
qed

end
